theory Spec2Isabelle
  imports Main "HOL-Library.Word"
begin

section \<open>Outcomes of a Go call\<close>

text \<open>
  The two Go files verified here are \<^verbatim>\<open>client/iscsi/helper.go\<close> (iSCSI session set-up,
  format and mount) and \<^verbatim>\<open>service-broker/controller/controller.go\<close> (the registry of
  service instances).

  A Go call ends in one of three ways, and the model keeps them apart:
  \<^item> it returns (\<open>Returned\<close>), possibly with a non-nil \<^verbatim>\<open>error\<close> among its results;
  \<^item> it reaches \<^verbatim>\<open>log.Fatalf\<close> or \<^verbatim>\<open>log.Fatalln\<close> of the standard \<^verbatim>\<open>log\<close> package,
    which writes the message and then calls \<^verbatim>\<open>os.Exit(1)\<close>: the process ends and the
    statement after it (in helper.go always \<^verbatim>\<open>return err\<close>) is never run (\<open>Exited\<close>,
    carrying the error that was logged);
  \<^item> it panics (\<open>Panicked\<close>): a failed type assertion, an assignment to an entry of
    a nil map, an index out of range.
\<close>

datatype error =
    ErrNotExist          \<comment> \<open>\<^verbatim>\<open>os.ErrNotExist\<close>, the errors \<^verbatim>\<open>os.IsNotExist\<close> accepts\<close>
  | SysError string      \<comment> \<open>any other error of the operating system, a tool or the storage client\<close>
  | ErrorsNew string     \<comment> \<open>\<^verbatim>\<open>errors.New(msg)\<close> and \<^verbatim>\<open>fmt.Errorf\<close>\<close>

datatype panic = TypeAssertion | NilMapAssignment | IndexOutOfRange

datatype 'a outcome = Returned 'a | Exited error | Panicked panic

fun IsNotExist :: "error \<Rightarrow> bool" where
  "IsNotExist ErrNotExist = True"
| "IsNotExist (SysError m) = False"
| "IsNotExist (ErrorsNew m) = False"

section \<open>helper.go: the host as an oracle, the calls as a trace\<close>

text \<open>
  helper.go talks to the host through \<^verbatim>\<open>os.Stat\<close>, \<^verbatim>\<open>filepath.Glob\<close>,
  \<^verbatim>\<open>exec.Command(...).CombinedOutput()\<close> and \<^verbatim>\<open>time.Sleep\<close>. Every such call
  is recorded, with its answer, as an event; the state threaded through the model is the
  list of events so far. The host is an oracle that answers a call from that history, so
  the same path may be absent at one probe and present at a later one.
  \<^verbatim>\<open>log.Printf\<close> and \<^verbatim>\<open>log.Println\<close> only write to the log and are left out.
\<close>

datatype event =
    EvStat string "error option"                    \<comment> \<open>\<^verbatim>\<open>osStat(path)\<close> and its error\<close>
  | EvGlob string "string list option"              \<comment> \<open>\<^verbatim>\<open>filepathGlob(pattern)\<close>; \<open>None\<close> is the nil slice\<close>
  | EvExec string "string list" string "error option"  \<comment> \<open>command, arguments, output, error\<close>
  | EvSleep                                         \<comment> \<open>\<^verbatim>\<open>time.Sleep(time.Second)\<close>\<close>

type_synonym trace = "event list"

record host =
  osStat :: "trace \<Rightarrow> string \<Rightarrow> error option"
  filepathGlob :: "trace \<Rightarrow> string \<Rightarrow> string list option"
  execCommand :: "trace \<Rightarrow> string \<Rightarrow> string list \<Rightarrow> string \<times> error option"

definition ISCSITranslateTCP :: string where
  "ISCSITranslateTCP = ''tcp''"

text \<open>
  Lines 60 to 73 of \<^verbatim>\<open>waitForPathToExistInternal\<close>: one probe. It yields the value of
  \<^verbatim>\<open>err\<close> and the string \<^verbatim>\<open>*devicePath\<close> holds afterwards. For a transport other than
  tcp the error of the glob is dropped, a nil result counts as \<^verbatim>\<open>os.ErrNotExist\<close>, and
  \<^verbatim>\<open>fpath[0]\<close> of a non-nil empty slice is an index out of range.
\<close>

definition probe ::
  "host \<Rightarrow> string \<Rightarrow> string \<Rightarrow> trace \<Rightarrow> (error option \<times> string) outcome \<times> trace" where
  "probe sys devicePath deviceTransport tr =
     (if deviceTransport = ISCSITranslateTCP then
        (let err = osStat sys tr devicePath
         in (Returned (err, devicePath), tr @ [EvStat devicePath err]))
      else
        (let fpath = filepathGlob sys tr devicePath;
             tr1 = tr @ [EvGlob devicePath fpath]
         in case fpath of
              None \<Rightarrow> (Returned (Some ErrNotExist, devicePath), tr1)
            | Some [] \<Rightarrow> (Panicked IndexOutOfRange, tr1)
            | Some (p # ps) \<Rightarrow> (Returned (None, p), tr1)))"

text \<open>
  The \<^verbatim>\<open>for i := 0; i < maxRetries; i++\<close> loop, entered at \<open>i\<close>. Go's \<^verbatim>\<open>int\<close> is
  modelled by \<open>int\<close>: inside the loop \<open>0 \<le> i < maxRetries\<close>, so neither \<open>i + 1\<close> nor
  \<open>maxRetries - 1\<close> can wrap. The \<^verbatim>\<open>break\<close> at the last index leaves the loop for the
  final \<^verbatim>\<open>return false\<close>.
\<close>

function waitLoop ::
  "host \<Rightarrow> int \<Rightarrow> string \<Rightarrow> int \<Rightarrow> string \<Rightarrow> trace \<Rightarrow> (bool \<times> string) outcome \<times> trace" where
  "waitLoop sys maxRetries deviceTransport i devicePath tr =
     (if i < maxRetries then
        (case probe sys devicePath deviceTransport tr of
           (Returned (err, dp), tr1) \<Rightarrow>
             (case err of
                None \<Rightarrow> (Returned (True, dp), tr1)
              | Some e \<Rightarrow>
                  if \<not> IsNotExist e then (Returned (False, dp), tr1)
                  else if i = maxRetries - 1 then (Returned (False, dp), tr1)
                  else waitLoop sys maxRetries deviceTransport (i + 1) dp (tr1 @ [EvSleep]))
         | (Exited e, tr1) \<Rightarrow> (Exited e, tr1)
         | (Panicked p, tr1) \<Rightarrow> (Panicked p, tr1))
      else (Returned (False, devicePath), tr))"
  by pat_completeness auto
termination
  by (relation "measure (\<lambda>(sys, maxRetries, deviceTransport, i, devicePath, tr). nat (maxRetries - i))") auto

text \<open>
  \<^verbatim>\<open>waitForPathToExistInternal\<close>. The pointer \<^verbatim>\<open>devicePath\<close> is \<open>None\<close> when nil; the
  result carries the boolean and what the pointer's target holds after the call.
  \<^verbatim>\<open>waitForPathToExist\<close> is the same function with \<^verbatim>\<open>os.Stat\<close> and \<^verbatim>\<open>filepath.Glob\<close>,
  which are the host's here.
\<close>

definition waitForPathToExistInternal ::
  "host \<Rightarrow> string option \<Rightarrow> int \<Rightarrow> string \<Rightarrow> trace \<Rightarrow> (bool \<times> string option) outcome \<times> trace" where
  "waitForPathToExistInternal sys devicePath maxRetries deviceTransport tr =
     (case devicePath of
        None \<Rightarrow> (Returned (False, None), tr)
      | Some dp \<Rightarrow>
          (case waitLoop sys maxRetries deviceTransport 0 dp tr of
             (Returned (b, dp1), tr1) \<Rightarrow> (Returned (b, Some dp1), tr1)
           | (Exited e, tr1) \<Rightarrow> (Exited e, tr1)
           | (Panicked p, tr1) \<Rightarrow> (Panicked p, tr1)))"

definition waitForPathToExist ::
  "host \<Rightarrow> string option \<Rightarrow> int \<Rightarrow> string \<Rightarrow> trace \<Rightarrow> (bool \<times> string option) outcome \<times> trace" where
  "waitForPathToExist sys devicePath maxRetries deviceTransport tr =
     waitForPathToExistInternal sys devicePath maxRetries deviceTransport tr"

subsection \<open>Running host commands\<close>

text \<open>
  A host-dependent computation takes the trace so far and gives its outcome and the
  extended trace. \<open>andThen\<close> runs the second computation only when the first returned.
\<close>

definition ret :: "'a \<Rightarrow> trace \<Rightarrow> 'a outcome \<times> trace" where
  "ret a = (\<lambda>tr. (Returned a, tr))"

definition andThen ::
  "(trace \<Rightarrow> 'a outcome \<times> trace) \<Rightarrow> ('a \<Rightarrow> trace \<Rightarrow> 'b outcome \<times> trace) \<Rightarrow> trace \<Rightarrow> 'b outcome \<times> trace" where
  "andThen m f tr =
     (case m tr of
        (Returned a, tr1) \<Rightarrow> f a tr1
      | (Exited e, tr1) \<Rightarrow> (Exited e, tr1)
      | (Panicked p, tr1) \<Rightarrow> (Panicked p, tr1))"

definition execCmd :: "host \<Rightarrow> string \<Rightarrow> string list \<Rightarrow> trace \<Rightarrow> (string \<times> error option) outcome \<times> trace" where
  "execCmd sys name arg tr =
     (let r = execCommand sys tr name arg
      in (Returned r, tr @ [EvExec name arg (fst r) (snd r)]))"

text \<open>
  \<^verbatim>\<open>if err != nil { log.Fatalf(...); return err }\<close>: the process exits inside
  \<^verbatim>\<open>log.Fatalf\<close>, so a failing tool never makes these functions return an error.
\<close>

definition fatalOnError :: "string \<times> error option \<Rightarrow> trace \<Rightarrow> error option outcome \<times> trace" where
  "fatalOnError r tr = (case snd r of Some err \<Rightarrow> (Exited err, tr) | None \<Rightarrow> (Returned None, tr))"

definition discoveryArgs :: "string \<Rightarrow> string list" where
  "discoveryArgs portal = [''-m'', ''discovery'', ''-t'', ''sendtargets'', ''-p'', portal]"

definition Discovery :: "host \<Rightarrow> string \<Rightarrow> trace \<Rightarrow> error option outcome \<times> trace" where
  "Discovery sys portal = andThen (execCmd sys ''iscsiadm'' (discoveryArgs portal)) fatalOnError"

definition updateArgs :: "string \<Rightarrow> string \<Rightarrow> string \<Rightarrow> string \<Rightarrow> string list" where
  "updateArgs portal targetiqn key v =
     [''-m'', ''node'', ''-p'', portal, ''-T'', targetiqn, ''--op=update'', ''--name'', key, ''--value'', v]"

definition SetAuth :: "host \<Rightarrow> string \<Rightarrow> string \<Rightarrow> string \<Rightarrow> string \<Rightarrow> trace \<Rightarrow> error option outcome \<times> trace" where
  "SetAuth sys portal targetiqn name passwd =
     andThen (andThen (execCmd sys ''iscsiadm'' (updateArgs portal targetiqn ''node.session.auth.username'' name)) fatalOnError)
       (\<lambda>_. andThen (execCmd sys ''iscsiadm'' (updateArgs portal targetiqn ''node.session.auth.password'' passwd)) fatalOnError)"

definition loginArgs :: "string \<Rightarrow> string \<Rightarrow> string list" where
  "loginArgs portal targetiqn = [''-m'', ''node'', ''-p'', portal, ''-T'', targetiqn, ''--login'']"

definition Login :: "host \<Rightarrow> string \<Rightarrow> string \<Rightarrow> trace \<Rightarrow> error option outcome \<times> trace" where
  "Login sys portal targetiqn = andThen (execCmd sys ''iscsiadm'' (loginArgs portal targetiqn)) fatalOnError"

definition logoutArgs :: "string \<Rightarrow> string \<Rightarrow> string list" where
  "logoutArgs portal targetiqn = [''-m'', ''node'', ''-p'', portal, ''-T'', targetiqn, ''--logout'']"

definition Logout :: "host \<Rightarrow> string \<Rightarrow> string \<Rightarrow> trace \<Rightarrow> error option outcome \<times> trace" where
  "Logout sys portal targetiqn = andThen (execCmd sys ''iscsiadm'' (logoutArgs portal targetiqn)) fatalOnError"

definition Delete :: "host \<Rightarrow> string \<Rightarrow> trace \<Rightarrow> error option outcome \<times> trace" where
  "Delete sys targetiqn =
     andThen (execCmd sys ''iscsiadm'' [''-m'', ''node'', ''-o'', ''delete'', ''-T'', targetiqn]) fatalOnError"

subsection \<open>Connect and Disconnect\<close>

record IscsiConnectorInfo =
  AccessMode :: string
  AuthUser :: string
  AuthPass :: string
  AuthMethod :: string
  TgtDisco :: bool
  TgtIQN :: string
  TgtPortal :: string
  VolumeID :: string
  TgtLun :: int
  Encrypted :: bool

text \<open>
  \<^verbatim>\<open>strconv.Itoa\<close> and \<^verbatim>\<open>strings.Join\<close> of the Go library. \<^verbatim>\<open>Itoa\<close> prints every
  value of Go's \<^verbatim>\<open>int\<close> in decimal, with a minus sign when negative.
\<close>

fun digits :: "nat \<Rightarrow> string" where
  "digits n = (if n < 10 then [''0123456789'' ! n] else digits (n div 10) @ [''0123456789'' ! (n mod 10)])"

definition Itoa :: "int \<Rightarrow> string" where
  "Itoa i = (if i < 0 then CHR ''-'' # digits (nat (- i)) else digits (nat i))"

fun Join :: "string list \<Rightarrow> string \<Rightarrow> string" where
  "Join [] sep = []"
| "Join [a] sep = a"
| "Join (a # b # rest) sep = a @ sep @ Join (b # rest) sep"

text \<open>Lines 185 to 196 of \<^verbatim>\<open>Connect\<close>: the device path computed from the descriptor.\<close>

definition connectDevicePath :: "IscsiConnectorInfo \<Rightarrow> string" where
  "connectDevicePath conn =
     Join [''/dev/disk/by-path/ip'', TgtPortal conn, ''iscsi'', TgtIQN conn, ''lun'', Itoa (TgtLun conn)] ''-''"

text \<open>
  The local variable \<^verbatim>\<open>devicePath\<close> after a call that was given \<^verbatim>\<open>&devicePath\<close>.
\<close>

definition pointee :: "string option \<Rightarrow> string \<Rightarrow> string" where
  "pointee p old = (case p of Some v \<Rightarrow> v | None \<Rightarrow> old)"

text \<open>
  \<^verbatim>\<open>Connect\<close>. \<^verbatim>\<open>ParseIscsiConnectInfo\<close> decodes the untyped map with the mapstructure
  library, which is not part of this repository: the decoder is a parameter. The value
  \<^verbatim>\<open>SetAuth\<close> returns is dropped, as in the source.
\<close>

definition Connect ::
  "host \<Rightarrow> ('m \<Rightarrow> IscsiConnectorInfo) \<Rightarrow> 'm \<Rightarrow> trace \<Rightarrow> (string \<times> error option) outcome \<times> trace" where
  "Connect sys ParseIscsiConnectInfo connMap =
     (let conn = ParseIscsiConnectInfo connMap;
          portal = TgtPortal conn;
          targetiqn = TgtIQN conn;
          devicePath = connectDevicePath conn
      in andThen (waitForPathToExist sys (Some devicePath) 1 ISCSITranslateTCP) (\<lambda>(isexist, p1).
           let devicePath1 = pointee p1 devicePath in
           if \<not> isexist then
             andThen (Discovery sys portal) (\<lambda>err.
               case err of
                 Some e \<Rightarrow> ret ('''', Some e)
               | None \<Rightarrow>
                   andThen (if length (AuthMethod conn) \<noteq> 0
                            then SetAuth sys portal targetiqn (AuthUser conn) (AuthPass conn)
                            else ret None) (\<lambda>_.
                   andThen (Login sys portal targetiqn) (\<lambda>err.
                     case err of
                       Some e \<Rightarrow> ret ('''', Some e)
                     | None \<Rightarrow>
                         andThen (waitForPathToExist sys (Some devicePath1) 10 ISCSITranslateTCP) (\<lambda>(isexist2, p2).
                           if \<not> isexist2
                           then ret ('''', Some (ErrorsNew ''Could not connect volume: Timeout after 10s''))
                           else ret (pointee p2 devicePath1, None)))))
           else ret (devicePath1, None)))"

definition Disconnect :: "host \<Rightarrow> string \<Rightarrow> string \<Rightarrow> trace \<Rightarrow> error option outcome \<times> trace" where
  "Disconnect sys portal targetiqn =
     andThen (Logout sys portal targetiqn) (\<lambda>err.
       case err of
         Some e \<Rightarrow> ret (Some e)
       | None \<Rightarrow> andThen (Delete sys targetiqn) (\<lambda>err.
           case err of Some e \<Rightarrow> ret (Some e) | None \<Rightarrow> ret None))"

subsection \<open>Format and Mount\<close>

text \<open>
  \<^verbatim>\<open>strings.Contains\<close>, \<^verbatim>\<open>strings.Split\<close> and \<^verbatim>\<open>strings.Replace(s, old, new, -1)\<close>,
  the last two for the one-character separators the source passes.
\<close>

fun HasPrefix :: "string \<Rightarrow> string \<Rightarrow> bool" where
  "HasPrefix s [] = True"
| "HasPrefix [] (p # ps) = False"
| "HasPrefix (c # cs) (p # ps) = (c = p \<and> HasPrefix cs ps)"

fun Contains :: "string \<Rightarrow> string \<Rightarrow> bool" where
  "Contains [] substr = (substr = [])"
| "Contains (c # cs) substr = (HasPrefix (c # cs) substr \<or> Contains cs substr)"

fun Split :: "string \<Rightarrow> char \<Rightarrow> string list" where
  "Split [] sep = [[]]"
| "Split (c # cs) sep =
     (if c = sep then [] # Split cs sep
      else (case Split cs sep of [] \<Rightarrow> [[c]] | w # ws \<Rightarrow> (c # w) # ws))"

definition Replace :: "string \<Rightarrow> char \<Rightarrow> string \<Rightarrow> string" where
  "Replace s old new = concat (map (\<lambda>c. if c = old then new else [c]) s)"

text \<open>
  The \<^verbatim>\<open>for _, v := range strings.Split(res, " ")\<close> loop of \<^verbatim>\<open>GetFSType\<close>, with the
  value of \<^verbatim>\<open>fsType\<close> so far. \<^verbatim>\<open>strings.Split(v, "=")[1]\<close> is an index expression.
\<close>

fun scanFSType :: "string list \<Rightarrow> string \<Rightarrow> string outcome" where
  "scanFSType [] fsType = Returned fsType"
| "scanFSType (v # vs) fsType =
     (if Contains v ''TYPE='' then
        (case Split v CHR ''='' of
           a # b # rest \<Rightarrow> scanFSType vs (Replace b (CHR 0x22) '''')
         | _ \<Rightarrow> Panicked IndexOutOfRange)
      else scanFSType vs fsType)"

definition GetFSType :: "host \<Rightarrow> string \<Rightarrow> trace \<Rightarrow> string outcome \<times> trace" where
  "GetFSType sys device =
     andThen (execCmd sys ''blkid'' [device]) (\<lambda>(res, err) tr1.
       case err of
         Some e \<Rightarrow> (Returned '''', tr1)
       | None \<Rightarrow>
           if Contains res ''TYPE='' then (scanFSType (Split res CHR '' '') '''', tr1)
           else (Returned '''', tr1))"

definition Format :: "host \<Rightarrow> string \<Rightarrow> string \<Rightarrow> trace \<Rightarrow> error option outcome \<times> trace" where
  "Format sys device fstype =
     andThen (GetFSType sys device) (\<lambda>curFSType.
       if curFSType = '''' then
         (let fstype1 = (if fstype = '''' then ''ext4'' else fstype)
          in andThen (execCmd sys ''mkfs'' [''-t'', fstype1, ''-F'', device]) fatalOnError)
       else ret None)"

text \<open>
  \<^verbatim>\<open>Mount\<close>: the \<^verbatim>\<open>log.Fatalf("failed to mkdir: ...")\<close> has no \<^verbatim>\<open>return\<close> after it, but
  it ends the process all the same.
\<close>

definition Mount :: "host \<Rightarrow> string \<Rightarrow> string \<Rightarrow> trace \<Rightarrow> error option outcome \<times> trace" where
  "Mount sys device mountpoint =
     andThen (andThen (execCmd sys ''mkdir'' [''-p'', mountpoint]) fatalOnError) (\<lambda>_.
       andThen (execCmd sys ''mount'' [device, mountpoint]) fatalOnError)"

definition FormatAndMount :: "host \<Rightarrow> string \<Rightarrow> string \<Rightarrow> string \<Rightarrow> trace \<Rightarrow> error option outcome \<times> trace" where
  "FormatAndMount sys device fstype mountpoint =
     andThen (Format sys device fstype) (\<lambda>err.
       case err of
         Some e \<Rightarrow> ret (Some e)
       | None \<Rightarrow> andThen (Mount sys device mountpoint) (\<lambda>err.
           case err of Some e \<Rightarrow> ret (Some e) | None \<Rightarrow> ret None))"

definition Umount :: "host \<Rightarrow> string \<Rightarrow> trace \<Rightarrow> error option outcome \<times> trace" where
  "Umount sys mountpoint = andThen (execCmd sys ''umount'' [mountpoint]) fatalOnError"

subsection \<open>Reading the trace of a poll\<close>

text \<open>
  A probe is a stat or a glob. It reports existence when the stat gave no error or the
  glob gave a match; it reports "does not exist" when the stat's error is one
  \<^verbatim>\<open>os.IsNotExist\<close> accepts or the glob gave the nil slice.
\<close>

fun is_probe :: "event \<Rightarrow> bool" where
  "is_probe (EvStat p r) = True"
| "is_probe (EvGlob p r) = True"
| "is_probe (EvExec n a out r) = False"
| "is_probe EvSleep = False"

fun probe_ok :: "event \<Rightarrow> bool" where
  "probe_ok (EvStat p r) = (r = None)"
| "probe_ok (EvGlob p None) = False"
| "probe_ok (EvGlob p (Some ms)) = (ms \<noteq> [])"
| "probe_ok (EvExec n a out r) = False"
| "probe_ok EvSleep = False"

fun probe_notfound :: "event \<Rightarrow> bool" where
  "probe_notfound (EvStat p None) = False"
| "probe_notfound (EvStat p (Some e)) = IsNotExist e"
| "probe_notfound (EvGlob p r) = (r = None)"
| "probe_notfound (EvExec n a out r) = False"
| "probe_notfound EvSleep = False"

text \<open>
  \<open>attempts evs\<close>: the events are probe, sleep, probe, ..., sleep, probe. They end with
  a probe, every sleep stands between two probes, and the probe before a sleep reported
  "does not exist".
\<close>

fun attempts :: "event list \<Rightarrow> bool" where
  "attempts [] = False"
| "attempts [e] = is_probe e"
| "attempts (e # EvSleep # es) = (probe_notfound e \<and> attempts es)"
| "attempts (e # d # es) = False"

text \<open>What the poll answers after a final probe.\<close>

fun verdict :: "event \<Rightarrow> bool outcome" where
  "verdict (EvGlob p (Some [])) = Panicked IndexOutOfRange"
| "verdict e = Returned (probe_ok e)"

text \<open>The events a poll of the path \<open>dp\<close> over tcp can add.\<close>

fun is_stat_or_sleep :: "string \<Rightarrow> event \<Rightarrow> bool" where
  "is_stat_or_sleep dp (EvStat p r) = (p = dp)"
| "is_stat_or_sleep dp EvSleep = True"
| "is_stat_or_sleep dp ev = False"

section \<open>controller.go: the registry of service instances\<close>

text \<open>
  A value of type \<^verbatim>\<open>interface{}\<close>: a string, an \<^verbatim>\<open>int64\<close>, the connection
  information of an attachment (a type of the storage client's model package, kept as a
  type parameter), or a value of any other dynamic type. \<^verbatim>\<open>v.(string)\<close> and
  \<^verbatim>\<open>v.(int64)\<close> panic on any other dynamic type.
\<close>

datatype 'c val = VString string | VInt64 "64 word" | VConnectionInfo 'c | VOther

definition assertString :: "'c val \<Rightarrow> string outcome" where
  "assertString v = (case v of VString s \<Rightarrow> Returned s | _ \<Rightarrow> Panicked TypeAssertion)"

definition assertInt64 :: "'c val \<Rightarrow> 64 word outcome" where
  "assertInt64 v = (case v of VInt64 n \<Rightarrow> Returned n | _ \<Rightarrow> Panicked TypeAssertion)"

text \<open>
  A Go map is \<open>None\<close> when nil. Reading a nil map finds no key; \<^verbatim>\<open>m[k] = v\<close> on a
  nil map panics.
\<close>

definition mapAssign :: "('k \<rightharpoonup> 'v) option \<Rightarrow> 'k \<Rightarrow> 'v \<Rightarrow> ('k \<rightharpoonup> 'v) option outcome" where
  "mapAssign m k v = (case m of None \<Rightarrow> Panicked NilMapAssignment | Some f \<Rightarrow> Returned (Some (f(k \<mapsto> v))))"

definition obind :: "'a outcome \<Rightarrow> ('a \<Rightarrow> 'b outcome) \<Rightarrow> 'b outcome" where
  "obind x f = (case x of Returned a \<Rightarrow> f a | Exited e \<Rightarrow> Exited e | Panicked p \<Rightarrow> Panicked p)"

text \<open>
  The structs of the storage client's model package, with the fields controller.go
  reads or writes. \<^verbatim>\<open>Metadata\<close> is indexed by a string and assigned to, so it is a map,
  and a map field is nil in \<^verbatim>\<open>new(model.VolumeSpec)\<close> and in a composite literal that
  does not set it.
\<close>

record VolumeSpec =
  Name :: string
  Description :: string
  Size :: "64 word"
  Metadata :: "(string \<rightharpoonup> string) option"

definition new_VolumeSpec :: VolumeSpec where
  "new_VolumeSpec = \<lparr>Name = '''', Description = '''', Size = 0, Metadata = None\<rparr>"

datatype HostInfo = EmptyHostInfo

record VolumeAttachmentSpec =
  VolumeId :: string
  HostInfo :: HostInfo
  AttachmentMetadata :: "(string \<rightharpoonup> string) option"

text \<open>What \<^verbatim>\<open>CreateVolume\<close> and \<^verbatim>\<open>CreateVolumeAttachment\<close> hand back, as far as it is read.\<close>

record Volume =
  GetId :: string
  GetName :: string

record 'c Attachment =
  AttachmentGetId :: string
  ConnectionInfo :: 'c

text \<open>
  The storage client \<^verbatim>\<open>sdsController.GetClient(c.Endpoint)\<close> lives outside these
  sources: its answers are a parameter of every operation. An \<^verbatim>\<open>error\<close> result is
  \<open>None\<close> when nil.
\<close>

record 'c Client =
  CreateVolume :: "VolumeSpec \<Rightarrow> error + Volume"
  DeleteVolume :: "string \<Rightarrow> error option"
  CreateVolumeAttachment :: "VolumeAttachmentSpec \<Rightarrow> error + 'c Attachment"
  DeleteVolumeAttachment :: "string \<Rightarrow> error option"

type_synonym 'c Credential = "string \<rightharpoonup> 'c val"

record 'c openSDSServiceInstance =
  InstanceName :: string
  Credential :: "'c Credential"

text \<open>
  \<^verbatim>\<open>instanceMap\<close>. Every entry is a pointer to an instance made by
  \<^verbatim>\<open>CreateServiceInstance\<close>, so no two ids share an instance, and a write through the
  pointer is an update of the entry. A credential set is made by a composite literal
  and is never the nil map. The lock is not modelled: one operation runs at a time.
\<close>

type_synonym 'c instanceMap = "string \<rightharpoonup> 'c openSDSServiceInstance"

record 'c CreateServiceInstanceRequest =
  Parameters :: "string \<rightharpoonup> 'c val"

record 'c BindingRequest =
  BindingParameters :: "string \<rightharpoonup> 'c val"

text \<open>
  \<^verbatim>\<open>&brokerapi.CreateServiceInstanceResponse{}\<close> and
  \<^verbatim>\<open>&brokerapi.DeleteServiceInstanceResponse{}\<close> set no field: one value each.
\<close>

datatype CreateServiceInstanceResponse = EmptyCreateServiceInstanceResponse

datatype DeleteServiceInstanceResponse = EmptyDeleteServiceInstanceResponse

record 'c CreateServiceBindingResponse =
  Credentials :: "'c Credential"

text \<open>
  Lines 93 to 105: the volume specification built from the request. In
  \<^verbatim>\<open>in.Metadata["lvPath"] = lvInterface.(string)\<close> the type assertion on the right is
  evaluated before the assignment is carried out.
\<close>

definition volumeSpecOf :: "(string \<rightharpoonup> 'c val) \<Rightarrow> VolumeSpec outcome" where
  "volumeSpecOf params =
     obind (case params ''name'' of
              Some nameInterface \<Rightarrow> obind (assertString nameInterface) (\<lambda>s. Returned (new_VolumeSpec\<lparr>Name := s\<rparr>))
            | None \<Rightarrow> Returned new_VolumeSpec) (\<lambda>in1.
     obind (case params ''description'' of
              Some despInterface \<Rightarrow> obind (assertString despInterface) (\<lambda>s. Returned (in1\<lparr>Description := s\<rparr>))
            | None \<Rightarrow> Returned in1) (\<lambda>in2.
     obind (case params ''capacity'' of
              Some capInterface \<Rightarrow> obind (assertInt64 capInterface) (\<lambda>n. Returned (in2\<lparr>Size := n\<rparr>))
            | None \<Rightarrow> Returned in2) (\<lambda>in3.
     (case params ''lvPath'' of
        Some lvInterface \<Rightarrow>
          obind (assertString lvInterface) (\<lambda>s.
          obind (mapAssign (Metadata in3) ''lvPath'' s) (\<lambda>m. Returned (in3\<lparr>Metadata := m\<rparr>)))
      | None \<Rightarrow> Returned in3))))"

definition CreateServiceInstance ::
  "'c Client \<Rightarrow> string \<Rightarrow> 'c CreateServiceInstanceRequest \<Rightarrow> 'c instanceMap
     \<Rightarrow> (error + CreateServiceInstanceResponse) outcome \<times> 'c instanceMap" where
  "CreateServiceInstance client instanceID req instances =
     (case volumeSpecOf (Parameters req) of
        Panicked p \<Rightarrow> (Panicked p, instances)
      | Exited e \<Rightarrow> (Exited e, instances)
      | Returned in0 \<Rightarrow>
          (case CreateVolume client in0 of
             Inl err \<Rightarrow> (Returned (Inl err), instances)
           | Inr vol \<Rightarrow>
               (Returned (Inr EmptyCreateServiceInstanceResponse),
                instances(instanceID \<mapsto>
                  \<lparr>InstanceName = instanceID,
                   Credential = [''volumeId'' \<mapsto> VString (GetId vol),
                                 ''image'' \<mapsto> VString (''OPENSDS:'' @ GetName vol @ '':'' @ GetId vol)]\<rparr>))))"

definition RemoveServiceInstance ::
  "'c Client \<Rightarrow> string \<Rightarrow> string \<Rightarrow> string \<Rightarrow> bool \<Rightarrow> 'c instanceMap
     \<Rightarrow> (error + DeleteServiceInstanceResponse) outcome \<times> 'c instanceMap" where
  "RemoveServiceInstance client instanceID serviceID planID acceptsIncomplete instances =
     (case instances instanceID of
        None \<Rightarrow> (Returned (Inl (ErrorsNew (''No such instance '' @ instanceID @ '' exited!''))), instances)
      | Some inst \<Rightarrow>
          (case Credential inst ''volumeId'' of
             None \<Rightarrow> (Returned (Inl (ErrorsNew ''Volume id not provided in credential info!'')), instances)
           | Some volInterface \<Rightarrow>
               (case assertString volInterface of
                  Panicked p \<Rightarrow> (Panicked p, instances)
                | Exited e \<Rightarrow> (Exited e, instances)
                | Returned volId \<Rightarrow>
                    (case DeleteVolume client volId of
                       Some err \<Rightarrow> (Returned (Inl err), instances)
                     | None \<Rightarrow> (Returned (Inr EmptyDeleteServiceInstanceResponse), instances(instanceID := None))))))"

text \<open>
  Lines 166 to 173 of \<^verbatim>\<open>Bind\<close>: the attachment specification. The composite literal
  sets \<^verbatim>\<open>VolumeId\<close> and \<^verbatim>\<open>HostInfo\<close> only.
\<close>

definition attachmentSpecOf :: "'c val \<Rightarrow> (string \<rightharpoonup> 'c val) \<Rightarrow> VolumeAttachmentSpec outcome" where
  "attachmentSpecOf volInterface params =
     obind (assertString volInterface) (\<lambda>volId.
       let in0 = \<lparr>VolumeId = volId, HostInfo = EmptyHostInfo, AttachmentMetadata = None\<rparr>
       in case params ''lvPath'' of
            Some lvInterface \<Rightarrow>
              obind (assertString lvInterface) (\<lambda>s.
              obind (mapAssign (AttachmentMetadata in0) ''lvPath'' s) (\<lambda>m. Returned (in0\<lparr>AttachmentMetadata := m\<rparr>)))
          | None \<Rightarrow> Returned in0)"

definition Bind ::
  "'c Client \<Rightarrow> string \<Rightarrow> string \<Rightarrow> 'c BindingRequest \<Rightarrow> 'c instanceMap
     \<Rightarrow> (error + 'c CreateServiceBindingResponse) outcome \<times> 'c instanceMap" where
  "Bind client instanceID bindingID req instances =
     (case instances instanceID of
        None \<Rightarrow> (Returned (Inl (ErrorsNew (''No such instance '' @ instanceID @ '' exited!''))), instances)
      | Some inst \<Rightarrow>
          (case Credential inst ''volumeId'' of
             None \<Rightarrow> (Returned (Inl (ErrorsNew ''Volume id not provided in credential info!'')), instances)
           | Some volInterface \<Rightarrow>
               (case attachmentSpecOf volInterface (BindingParameters req) of
                  Panicked p \<Rightarrow> (Panicked p, instances)
                | Exited e \<Rightarrow> (Exited e, instances)
                | Returned in0 \<Rightarrow>
                    (case CreateVolumeAttachment client in0 of
                       Inl err \<Rightarrow> (Returned (Inl err), instances)
                     | Inr atc \<Rightarrow>
                         (let cred = (Credential inst)
                                (''attachmentId'' \<mapsto> VString (AttachmentGetId atc),
                                 ''connectionInfo'' \<mapsto> VConnectionInfo (ConnectionInfo atc))
                          in (Returned (Inr \<lparr>Credentials = cred\<rparr>),
                              instances(instanceID \<mapsto> inst\<lparr>Credential := cred\<rparr>)))))))"

definition UnBind ::
  "'c Client \<Rightarrow> string \<Rightarrow> string \<Rightarrow> string \<Rightarrow> string \<Rightarrow> 'c instanceMap
     \<Rightarrow> error option outcome \<times> 'c instanceMap" where
  "UnBind client instanceID bindingID serviceID planID instances =
     (case instances instanceID of
        None \<Rightarrow> (Returned (Some (ErrorsNew (''No such instance '' @ instanceID @ '' exited!''))), instances)
      | Some inst \<Rightarrow>
          (case Credential inst ''attachmentId'' of
             None \<Rightarrow> (Returned (Some (ErrorsNew ''Volume attachment id not provided in credential info!'')), instances)
           | Some atcInterface \<Rightarrow>
               (case assertString atcInterface of
                  Panicked p \<Rightarrow> (Panicked p, instances)
                | Exited e \<Rightarrow> (Exited e, instances)
                | Returned atcId \<Rightarrow>
                    (case DeleteVolumeAttachment client atcId of
                       Some err \<Rightarrow> (Returned (Some err), instances)
                     | None \<Rightarrow> (Returned None, instances(instanceID \<mapsto> inst\<lparr>Credential := Map.empty\<rparr>))))))"

subsection \<open>Reading the registry and a request\<close>

text \<open>The value an instance's credential set holds under a key, if any.\<close>

definition credentialOf :: "'c instanceMap \<Rightarrow> string \<Rightarrow> string \<Rightarrow> 'c val option" where
  "credentialOf instances instanceID key =
     (case instances instanceID of None \<Rightarrow> None | Some inst \<Rightarrow> Credential inst key)"

text \<open>
  A parameter on which \<^verbatim>\<open>.(string)\<close>, or \<^verbatim>\<open>.(int64)\<close>, does not panic where the
  source applies it: the key is absent, or its value has that dynamic type.
\<close>

fun isString :: "'c val \<Rightarrow> bool" where
  "isString (VString s) = True"
| "isString v = False"

fun stringOrAbsent :: "'c val option \<Rightarrow> bool" where
  "stringOrAbsent None = True"
| "stringOrAbsent (Some v) = isString v"

fun int64OrAbsent :: "'c val option \<Rightarrow> bool" where
  "int64OrAbsent None = True"
| "int64OrAbsent (Some (VInt64 n)) = True"
| "int64OrAbsent (Some v) = False"

section \<open>Concrete hosts and requests\<close>

text \<open>
  \<open>scripted st ex\<close> answers a stat from the number of host calls made so far and a
  command from its name and arguments; no glob matches.
\<close>

definition scripted :: "(nat \<Rightarrow> error option) \<Rightarrow> (string \<Rightarrow> string list \<Rightarrow> string \<times> error option) \<Rightarrow> host" where
  "scripted st ex = \<lparr>osStat = (\<lambda>tr p. st (length tr)), filepathGlob = (\<lambda>tr p. None), execCommand = (\<lambda>tr. ex)\<rparr>"

definition allCommandsSucceed :: "string \<Rightarrow> string list \<Rightarrow> string \<times> error option" where
  "allCommandsSucceed name arg = ('''', None)"

definition appearsAtThirdProbe :: host where
  "appearsAtThirdProbe = scripted (\<lambda>n. if n < 4 then Some ErrNotExist else None) allCommandsSucceed"

definition deniedAtSecondProbe :: host where
  "deniedAtSecondProbe =
     scripted (\<lambda>n. if n < 2 then Some ErrNotExist else Some (SysError ''permission denied'')) allCommandsSucceed"

definition alwaysPresent :: host where
  "alwaysPresent = scripted (\<lambda>n. None) allCommandsSucceed"

definition neverAppears :: host where
  "neverAppears = scripted (\<lambda>n. Some ErrNotExist) allCommandsSucceed"

definition passwordUpdateFails :: "string \<Rightarrow> string list \<Rightarrow> string \<times> error option" where
  "passwordUpdateFails name arg =
     (if ''node.session.auth.password'' \<in> set arg
      then (''iscsiadm: No records found'', Some (SysError ''exit status 21''))
      else ('''', None))"

definition passwordRejected :: host where
  "passwordRejected = scripted (\<lambda>n. Some ErrNotExist) passwordUpdateFails"

definition demoConn :: IscsiConnectorInfo where
  "demoConn =
     \<lparr>AccessMode = ''rw'', AuthUser = '''', AuthPass = '''', AuthMethod = '''', TgtDisco = False,
      TgtIQN = ''iqn.2017-01.demo:vol1'', TgtPortal = ''10.0.0.1:3260'', VolumeID = ''vol1'',
      TgtLun = 0, Encrypted = False\<rparr>"

definition chapConn :: IscsiConnectorInfo where
  "chapConn = demoConn\<lparr>AuthUser := ''user'', AuthPass := ''secret'', AuthMethod := ''CHAP''\<rparr>"

definition demoPath :: string where
  "demoPath = ''/dev/disk/by-path/ip-10.0.0.1:3260-iscsi-iqn.2017-01.demo:vol1-lun-0''"

text \<open>
  What \<open>Connect\<close> does on \<open>neverAppears\<close>: the first probe, discovery, login, then ten
  probes a second apart.
\<close>

definition demoAbsent :: event where
  "demoAbsent = EvStat demoPath (Some ErrNotExist)"

definition timeoutTrace :: trace where
  "timeoutTrace =
     [demoAbsent,
      EvExec ''iscsiadm'' (discoveryArgs ''10.0.0.1:3260'') '''' None,
      EvExec ''iscsiadm'' (loginArgs ''10.0.0.1:3260'' ''iqn.2017-01.demo:vol1'') '''' None,
      demoAbsent, EvSleep, demoAbsent, EvSleep, demoAbsent, EvSleep, demoAbsent, EvSleep, demoAbsent, EvSleep,
      demoAbsent, EvSleep, demoAbsent, EvSleep, demoAbsent, EvSleep, demoAbsent, EvSleep, demoAbsent]"

definition rejectedTrace :: trace where
  "rejectedTrace =
     [demoAbsent,
      EvExec ''iscsiadm'' (discoveryArgs ''10.0.0.1:3260'') '''' None,
      EvExec ''iscsiadm'' (updateArgs ''10.0.0.1:3260'' ''iqn.2017-01.demo:vol1'' ''node.session.auth.username'' ''user'') '''' None,
      EvExec ''iscsiadm'' (updateArgs ''10.0.0.1:3260'' ''iqn.2017-01.demo:vol1'' ''node.session.auth.password'' ''secret'')
        ''iscsiadm: No records found'' (Some (SysError ''exit status 21''))]"

text \<open>
  A disk that carries an ext4 signature, a disk \<^verbatim>\<open>blkid\<close> cannot read, and a host on
  which \<^verbatim>\<open>mkdir\<close> fails.
\<close>

definition blkidOutput :: string where
  "blkidOutput =
     ''/dev/sdb: UUID='' @ [CHR 0x22] @ ''ab12'' @ [CHR 0x22] @ '' TYPE='' @ [CHR 0x22] @ ''ext4'' @ [CHR 0x22]
       @ '' PARTUUID='' @ [CHR 0x22] @ ''cd34'' @ [CHR 0x22]"

definition blkidFindsExt4 :: "string \<Rightarrow> string list \<Rightarrow> string \<times> error option" where
  "blkidFindsExt4 name arg = (if name = ''blkid'' then (blkidOutput, None) else ('''', None))"

definition formattedDisk :: host where
  "formattedDisk = scripted (\<lambda>n. None) blkidFindsExt4"

definition blkidFails :: "string \<Rightarrow> string list \<Rightarrow> string \<times> error option" where
  "blkidFails name arg = (if name = ''blkid'' then ('''', Some (SysError ''exit status 2'')) else ('''', None))"

definition unreadableDisk :: host where
  "unreadableDisk = scripted (\<lambda>n. None) blkidFails"

definition mkdirFails :: "string \<Rightarrow> string list \<Rightarrow> string \<times> error option" where
  "mkdirFails name arg =
     (if name = ''mkdir'' then (''mkdir: cannot create directory'', Some (SysError ''exit status 1''))
      else ('''', None))"

definition readOnlyRoot :: host where
  "readOnlyRoot = scripted (\<lambda>n. None) mkdirFails"

text \<open>
  A storage client that creates the volume \<^verbatim>\<open>v-1\<close> and the attachment \<^verbatim>\<open>a-1\<close>, one
  that creates the volume \<^verbatim>\<open>v-2\<close>, and the requests sent to the broker.
\<close>

definition demoClient :: "string Client" where
  "demoClient =
     \<lparr>CreateVolume = (\<lambda>spec. Inr \<lparr>GetId = ''v-1'', GetName = Name spec\<rparr>),
      DeleteVolume = (\<lambda>volId. None),
      CreateVolumeAttachment = (\<lambda>spec. Inr \<lparr>AttachmentGetId = ''a-1'', ConnectionInfo = ''iscsi 10.0.0.1:3260''\<rparr>),
      DeleteVolumeAttachment = (\<lambda>atcId. None)\<rparr>"

definition otherClient :: "string Client" where
  "otherClient = demoClient\<lparr>CreateVolume := (\<lambda>spec. Inr \<lparr>GetId = ''v-2'', GetName = Name spec\<rparr>)\<rparr>"

definition noInstances :: "string instanceMap" where
  "noInstances = Map.empty"

definition demoRequest :: "string CreateServiceInstanceRequest" where
  "demoRequest = \<lparr>Parameters = [''name'' \<mapsto> VString ''data'', ''capacity'' \<mapsto> VInt64 1]\<rparr>"

definition demoSpec :: VolumeSpec where
  "demoSpec = \<lparr>Name = ''data'', Description = '''', Size = 1, Metadata = None\<rparr>"

definition lvPathRequest :: "string CreateServiceInstanceRequest" where
  "lvPathRequest = \<lparr>Parameters = [''name'' \<mapsto> VString ''data'', ''lvPath'' \<mapsto> VString ''/dev/vg/lv0'']\<rparr>"

definition demoBinding :: "string BindingRequest" where
  "demoBinding = \<lparr>BindingParameters = Map.empty\<rparr>"

definition lvPathBinding :: "string BindingRequest" where
  "lvPathBinding = \<lparr>BindingParameters = [''lvPath'' \<mapsto> VString ''/dev/vg/lv0'']\<rparr>"

text \<open>The registry after a create, after a bind on it, and after the unbind that follows.\<close>

definition afterCreate :: "string instanceMap" where
  "afterCreate = snd (CreateServiceInstance demoClient ''i1'' demoRequest noInstances)"

definition afterBind :: "string instanceMap" where
  "afterBind = snd (Bind demoClient ''i1'' ''b1'' demoBinding afterCreate)"

definition afterUnBind :: "string instanceMap" where
  "afterUnBind = snd (UnBind demoClient ''i1'' ''b1'' ''svc'' ''plan'' afterBind)"

definition demoInstance :: "string openSDSServiceInstance" where
  "demoInstance =
     \<lparr>InstanceName = ''i1'',
      Credential = [''volumeId'' \<mapsto> VString ''v-1'', ''image'' \<mapsto> VString ''OPENSDS:data:v-1'']\<rparr>"

section \<open>The path poll\<close>

lemma probe_ok_not_notfound: "probe_ok ev \<Longrightarrow> \<not> probe_notfound ev"
  by (induction ev rule: probe_ok.induct) auto

lemma probe_notfound_is_probe: "probe_notfound ev \<Longrightarrow> is_probe ev"
  by (induction ev rule: probe_notfound.induct) auto

lemma attempts_last: "attempts evs \<Longrightarrow> is_probe (last evs)"
  by (induction evs rule: attempts.induct) auto

lemma attempts_hd: "attempts (e # es) \<Longrightarrow> is_probe e"
  by (induction "e # es" rule: attempts.induct) (auto dest: probe_notfound_is_probe)

text \<open>A probe that did not report "does not exist" is the last event of the poll.\<close>

lemma attempts_stop:
  "attempts evs \<Longrightarrow> k < length evs \<Longrightarrow> is_probe (evs ! k) \<Longrightarrow> \<not> probe_notfound (evs ! k)
     \<Longrightarrow> Suc k = length evs"
proof (induction evs arbitrary: k rule: attempts.induct)
  case (3 e es)
  then show ?case
    by (cases k) (auto simp: nth_Cons split: nat.splits)
qed auto

lemma attempts_sleep:
  "attempts evs \<Longrightarrow> k < length evs \<Longrightarrow> evs ! k = EvSleep
     \<Longrightarrow> 0 < k \<and> Suc k < length evs \<and> probe_notfound (evs ! (k - 1)) \<and> is_probe (evs ! Suc k)"
proof (induction evs arbitrary: k rule: attempts.induct)
  case (3 e es)
  show ?case
  proof (cases k)
    case 0
    with 3 show ?thesis by (cases e) auto
  next
    case (Suc j)
    show ?thesis
    proof (cases j)
      case 0
      with Suc 3 show ?thesis by (cases es) (auto dest: attempts_hd)
    next
      case (Suc l)
      with \<open>k = Suc j\<close> 3 have "0 < l \<and> Suc l < length es \<and> probe_notfound (es ! (l - 1)) \<and> is_probe (es ! Suc l)"
        by auto
      with Suc \<open>k = Suc j\<close> show ?thesis by (cases l) auto
    qed
  qed
qed auto

text \<open>One probe adds one event, and its answer is read off that event.\<close>

lemma probe_event:
  "probe sys dp t tr = (r, tr1) \<Longrightarrow>
     \<exists>ev. tr1 = tr @ [ev] \<and> is_probe ev \<and>
       (case r of
          Returned (err, dp') \<Rightarrow> (err = None) = probe_ok ev
             \<and> (\<forall>e. err = Some e \<longrightarrow> IsNotExist e = probe_notfound ev)
             \<and> verdict ev = Returned (probe_ok ev)
        | Exited e \<Rightarrow> False
        | Panicked p \<Rightarrow> verdict ev = Panicked p \<and> \<not> probe_notfound ev)"
  by (auto simp: probe_def Let_def split: if_splits option.splits list.splits)

text \<open>
  The loop entered at \<open>i < m\<close>: its events are attempts, at most \<open>m - i\<close> probes, all
  \<open>m - i\<close> of them when the last one still reported "does not exist", and the answer is
  the verdict of the last probe.
\<close>

lemma waitLoop_shape:
  "i < m \<Longrightarrow> waitLoop sys m t i dp tr = (out, tr') \<Longrightarrow>
     \<exists>evs. tr' = tr @ evs \<and> attempts evs
        \<and> length (filter is_probe evs) \<le> nat (m - i)
        \<and> map_outcome fst out = verdict (last evs)
        \<and> (probe_notfound (last evs) \<longrightarrow> length (filter is_probe evs) = nat (m - i))"
proof (induction sys m t i dp tr arbitrary: out tr' rule: waitLoop.induct)
  case (1 sys m t i dp tr)
  obtain r tr1 where pr: "probe sys dp t tr = (r, tr1)"
    by (cases "probe sys dp t tr") auto
  from probe_event [OF pr] obtain ev where
    ev: "tr1 = tr @ [ev]" "is_probe ev" and
    evr: "case r of
          Returned (err, dp') \<Rightarrow> (err = None) = probe_ok ev
             \<and> (\<forall>e. err = Some e \<longrightarrow> IsNotExist e = probe_notfound ev)
             \<and> verdict ev = Returned (probe_ok ev)
        | Exited e \<Rightarrow> False
        | Panicked p \<Rightarrow> verdict ev = Panicked p \<and> \<not> probe_notfound ev"
    by blast
  have lt: "i < m" by fact
  have run: "waitLoop sys m t i dp tr = (out, tr')" by fact
  show ?case
  proof (cases r)
    case (Exited e)
    with evr show ?thesis by simp
  next
    case (Panicked p)
    with run pr lt have "out = Panicked p" "tr' = tr1" by auto
    with ev evr Panicked lt show ?thesis
      by (intro exI [of _ "[ev]"]) auto
  next
    case (Returned a)
    obtain err dp' where a: "a = (err, dp')" by (cases a)
    show ?thesis
    proof (cases err)
      case None
      with run pr lt Returned a have "out = Returned (True, dp')" "tr' = tr1" by auto
      with ev evr Returned a None lt show ?thesis
        by (intro exI [of _ "[ev]"]) (auto dest: probe_ok_not_notfound)
    next
      case (Some e)
      show ?thesis
      proof (cases "IsNotExist e \<and> i \<noteq> m - 1")
        case False
        with run pr lt Returned a Some have o: "out = Returned (False, dp')" "tr' = tr1"
          by (auto split: if_splits)
        from False lt have "IsNotExist e \<Longrightarrow> nat (m - i) = 1" by auto
        with o ev evr Returned a Some lt show ?thesis
          by (intro exI [of _ "[ev]"]) auto
      next
        case True
        with lt have lt': "i + 1 < m" by simp
        from True run pr lt Returned a Some
        have rec: "waitLoop sys m t (i + 1) dp' (tr1 @ [EvSleep]) = (out, tr')" by simp
        from "1.IH" [OF lt pr [symmetric] _ _ Some _ _ lt' rec] Returned a True
        obtain evs where evs: "tr' = (tr1 @ [EvSleep]) @ evs" "attempts evs"
          "length (filter is_probe evs) \<le> nat (m - (i + 1))"
          "map_outcome fst out = verdict (last evs)"
          "probe_notfound (last evs) \<longrightarrow> length (filter is_probe evs) = nat (m - (i + 1))"
          by auto
        from evs(2) have ne: "evs \<noteq> []" by auto
        from evr Returned a Some True have nf: "probe_notfound ev" by simp
        show ?thesis
          using evs ev ne nf lt'
          by (intro exI [of _ "ev # EvSleep # evs"]) auto
      qed
    qed
  qed
qed

lemma waitForPath_shape:
  assumes "0 < maxRetries"
    and "waitForPathToExistInternal sys (Some dp) maxRetries transport tr = (out, tr')"
  shows "\<exists>evs. tr' = tr @ evs \<and> attempts evs
        \<and> length (filter is_probe evs) \<le> nat maxRetries
        \<and> map_outcome fst out = verdict (last evs)
        \<and> (probe_notfound (last evs) \<longrightarrow> length (filter is_probe evs) = nat maxRetries)"
proof -
  obtain o1 where o1: "waitLoop sys maxRetries transport 0 dp tr = (o1, tr')"
    and out: "map_outcome fst out = map_outcome fst o1"
    using assms(2)
    by (cases "waitLoop sys maxRetries transport 0 dp tr")
       (auto simp: waitForPathToExistInternal_def split: outcome.splits prod.splits)
  from waitLoop_shape [OF assms(1) o1] out show ?thesis by simp
qed

text \<open>
  Claim C4. For every \<open>maxRetries \<ge> 1\<close> the poll returns success on the first attempt
  whose probe reports existence, and the one-second delay is taken only between
  attempts, never after the final one. Whatever the host answers, the events \<open>evs\<close> the
  call adds are probe, sleep, probe, ..., probe (\<open>attempts\<close>); the last event is a
  probe, not a sleep; the poll's answer is the verdict of that last probe, so it is
  \<open>True\<close> exactly when that probe reported existence; a probe that reports existence
  has no event after it and makes the poll return \<open>True\<close>, so the poll succeeds at the
  first one; every sleep has a probe
  that reported "does not exist" right before it and a probe right after it; and the
  poll gives up on "does not exist" only after all \<open>maxRetries\<close> probes.
\<close>

theorem WaitForPath_first_existence:
  assumes "1 \<le> maxRetries"
    and "waitForPathToExistInternal sys (Some dp) maxRetries transport tr = (out, tr')"
  shows "\<exists>evs. tr' = tr @ evs \<and> attempts evs
           \<and> is_probe (last evs)
           \<and> map_outcome fst out = verdict (last evs)
           \<and> (\<forall>k. k < length evs \<and> probe_ok (evs ! k) \<longrightarrow>
                 Suc k = length evs \<and> map_outcome fst out = Returned True)
           \<and> (\<forall>k. k < length evs \<and> evs ! k = EvSleep \<longrightarrow>
                 0 < k \<and> Suc k < length evs \<and> probe_notfound (evs ! (k - 1)) \<and> is_probe (evs ! Suc k))
           \<and> length (filter is_probe evs) \<le> nat maxRetries
           \<and> (probe_notfound (last evs) \<longrightarrow> length (filter is_probe evs) = nat maxRetries)"
proof -
  from assms(1) have "0 < maxRetries" by simp
  from waitForPath_shape [OF this assms(2)] obtain evs where
    evs: "tr' = tr @ evs" "attempts evs" "length (filter is_probe evs) \<le> nat maxRetries"
      "map_outcome fst out = verdict (last evs)"
      "probe_notfound (last evs) \<longrightarrow> length (filter is_probe evs) = nat maxRetries"
    by blast
  have ok: "Suc k = length evs \<and> map_outcome fst out = Returned True"
    if "k < length evs \<and> probe_ok (evs ! k)" for k
  proof -
    from that have "is_probe (evs ! k)" by (cases "evs ! k") auto
    with attempts_stop [OF evs(2)] that have l: "Suc k = length evs"
      by (auto dest: probe_ok_not_notfound)
    with that have "last evs = evs ! k"
      by (metis diff_Suc_1 last_conv_nth length_0_conv nat.distinct(1))
    with that have "verdict (last evs) = Returned True"
      by (cases "evs ! k" rule: verdict.cases) auto
    with l evs(4) show ?thesis by simp
  qed
  from evs attempts_last [OF evs(2)] attempts_sleep [OF evs(2)] ok
  show ?thesis by (intro exI [of _ evs]) blast
qed

text \<open>
  A path that appears at the third probe of five: two sleeps, success at the third
  probe, and no fourth probe.
\<close>

theorem WaitForPath_first_existence_witness:
  "(1::int) \<le> 5
   \<and> waitForPathToExistInternal appearsAtThirdProbe (Some ''/dev/x'') 5 ''tcp'' [] =
       (Returned (True, Some ''/dev/x''),
        [EvStat ''/dev/x'' (Some ErrNotExist), EvSleep, EvStat ''/dev/x'' (Some ErrNotExist), EvSleep,
         EvStat ''/dev/x'' None])
   \<and> (\<exists>evs. [EvStat ''/dev/x'' (Some ErrNotExist), EvSleep, EvStat ''/dev/x'' (Some ErrNotExist), EvSleep,
         EvStat ''/dev/x'' None] = [] @ evs \<and> attempts evs \<and> is_probe (last evs))"
proof -
  have run: "waitForPathToExistInternal appearsAtThirdProbe (Some ''/dev/x'') 5 ''tcp'' [] =
       (Returned (True, Some ''/dev/x''),
        [EvStat ''/dev/x'' (Some ErrNotExist), EvSleep, EvStat ''/dev/x'' (Some ErrNotExist), EvSleep,
         EvStat ''/dev/x'' None])"
    by (simp add: waitForPathToExistInternal_def appearsAtThirdProbe_def scripted_def probe_def
        ISCSITranslateTCP_def Let_def)
  have le: "(1::int) \<le> 5" by simp
  from WaitForPath_first_existence [OF le run] have
    "\<exists>evs. [EvStat ''/dev/x'' (Some ErrNotExist), EvSleep, EvStat ''/dev/x'' (Some ErrNotExist), EvSleep,
         EvStat ''/dev/x'' None] = [] @ evs \<and> attempts evs \<and> is_probe (last evs)"
    by blast
  with le run show ?thesis by blast
qed

text \<open>
  Claim C5. A probe error that is not a not-found error ends the poll on that attempt:
  when the \<open>k\<close>-th event of a poll is a stat whose error \<^verbatim>\<open>os.IsNotExist\<close> rejects, it
  is the last event (no further probe and no sleep follow) and the poll returns
  \<open>False\<close>. This holds for every \<open>maxRetries\<close> and at every attempt. A glob never gives
  such an error: its error is dropped.
\<close>

theorem WaitForPath_other_error_stops:
  assumes "waitForPathToExistInternal sys (Some dp) maxRetries transport tr = (out, tr @ evs)"
    and "k < length evs"
    and "evs ! k = EvStat p (Some e)"
    and "\<not> IsNotExist e"
  shows "Suc k = length evs \<and> (\<exists>p'. out = Returned (False, p'))"
proof -
  have pos: "0 < maxRetries"
  proof (rule ccontr)
    assume "\<not> 0 < maxRetries"
    with assms(1) have "evs = []"
      by (simp add: waitForPathToExistInternal_def)
    with assms(2) show False by simp
  qed
  from waitForPath_shape [OF pos assms(1)] have
    evs: "attempts evs" "map_outcome fst out = verdict (last evs)"
    by auto
  from attempts_stop [OF evs(1) assms(2)] assms(3,4) have last: "Suc k = length evs" by simp
  with assms(2,3) have "last evs = EvStat p (Some e)"
    by (metis diff_Suc_1 last_conv_nth length_0_conv nat.distinct(1))
  with evs(2) have "map_outcome fst out = Returned False" by simp
  then have "\<exists>p'. out = Returned (False, p')" by (cases out) auto
  with last show ?thesis by simp
qed

text \<open>
  Of five allowed attempts the second meets "permission denied": the poll ends there,
  after two probes and one sleep.
\<close>

theorem WaitForPath_other_error_stops_witness:
  "waitForPathToExistInternal deniedAtSecondProbe (Some ''/dev/x'') 5 ''tcp'' [] =
     (Returned (False, Some ''/dev/x''),
      [] @ [EvStat ''/dev/x'' (Some ErrNotExist), EvSleep, EvStat ''/dev/x'' (Some (SysError ''permission denied''))])
   \<and> \<not> IsNotExist (SysError ''permission denied'')
   \<and> Suc 2 = length [EvStat ''/dev/x'' (Some ErrNotExist), EvSleep, EvStat ''/dev/x'' (Some (SysError ''permission denied''))]"
proof -
  have run: "waitForPathToExistInternal deniedAtSecondProbe (Some ''/dev/x'') 5 ''tcp'' [] =
     (Returned (False, Some ''/dev/x''),
      [] @ [EvStat ''/dev/x'' (Some ErrNotExist), EvSleep, EvStat ''/dev/x'' (Some (SysError ''permission denied''))])"
    by (simp add: waitForPathToExistInternal_def deniedAtSecondProbe_def scripted_def probe_def
        ISCSITranslateTCP_def Let_def)
  have k: "2 < length [EvStat ''/dev/x'' (Some ErrNotExist), EvSleep, EvStat ''/dev/x'' (Some (SysError ''permission denied''))]"
    by simp
  have ev: "[EvStat ''/dev/x'' (Some ErrNotExist), EvSleep, EvStat ''/dev/x'' (Some (SysError ''permission denied''))] ! 2
      = EvStat ''/dev/x'' (Some (SysError ''permission denied''))"
    by simp
  have ne: "\<not> IsNotExist (SysError ''permission denied'')" by simp
  from WaitForPath_other_error_stops [OF run k ev ne] run ne show ?thesis by blast
qed

section \<open>Connect\<close>

lemma pointee_Some [simp]: "pointee (Some v) old = v"
  by (simp add: pointee_def)

lemma andThen_ret: "andThen (ret a) f tr = f a tr"
  by (simp add: andThen_def ret_def)

lemma waitForPathToExist_once:
  "waitForPathToExist sys (Some dp) 1 ISCSITranslateTCP tr =
     (Returned (osStat sys tr dp = None, Some dp), tr @ [EvStat dp (osStat sys tr dp)])"
  by (simp add: waitForPathToExist_def waitForPathToExistInternal_def probe_def Let_def
      split: option.splits)

lemma waitLoop_tcp:
  "waitLoop sys m ISCSITranslateTCP i dp tr = (out, tr') \<Longrightarrow>
     \<exists>b evs. out = Returned (b, dp) \<and> tr' = tr @ evs \<and> list_all (is_stat_or_sleep dp) evs"
proof (induction sys m "ISCSITranslateTCP" i dp tr arbitrary: out tr' rule: waitLoop.induct)
  case (1 sys m i dp tr)
  show ?case
  proof (cases "i < m")
    case False
    with "1.prems" show ?thesis by auto
  next
    case True
    let ?r = "osStat sys tr dp"
    have pr: "probe sys dp ISCSITranslateTCP tr = (Returned (?r, dp), tr @ [EvStat dp ?r])"
      by (simp add: probe_def Let_def)
    show ?thesis
    proof (cases "\<exists>e. ?r = Some e \<and> IsNotExist e \<and> i \<noteq> m - 1")
      case False
      with "1.prems" True pr have "tr' = tr @ [EvStat dp ?r] \<and> (\<exists>b. out = Returned (b, dp))"
        by (cases ?r) (auto split: if_splits)
      then show ?thesis by auto
    next
      case True
      then obtain e where e: "?r = Some e" "IsNotExist e" "i \<noteq> m - 1" by blast
      with "1.prems" \<open>i < m\<close> pr
      have rec: "waitLoop sys m ISCSITranslateTCP (i + 1) dp ((tr @ [EvStat dp ?r]) @ [EvSleep]) = (out, tr')"
        by simp
      from "1.hyps" [OF \<open>i < m\<close> pr [symmetric] refl refl e(1) _ e(3) rec] e(2)
      obtain b evs where "out = Returned (b, dp)" "tr' = ((tr @ [EvStat dp ?r]) @ [EvSleep]) @ evs"
        "list_all (is_stat_or_sleep dp) evs" by auto
      then show ?thesis
        by (intro exI [of _ b] exI [of _ "EvStat dp ?r # EvSleep # evs"]) simp
    qed
  qed
qed

lemma exec_fatal:
  "andThen (execCmd sys n a) fatalOnError tr =
     (case snd (execCommand sys tr n a) of Some e \<Rightarrow> Exited e | None \<Rightarrow> Returned None,
      tr @ [EvExec n a (fst (execCommand sys tr n a)) (snd (execCommand sys tr n a))])"
  by (simp add: andThen_def execCmd_def fatalOnError_def Let_def split: option.splits)

lemma verdict_stat_or_sleep: "is_stat_or_sleep dp ev \<Longrightarrow> verdict ev = Returned (probe_ok ev)"
  by (cases ev) auto

lemma waitForPathToExist_tcp:
  assumes "0 < m"
  shows "\<exists>evs. waitForPathToExist sys (Some dp) m ISCSITranslateTCP tr = (Returned (probe_ok (last evs), Some dp), tr @ evs)
           \<and> attempts evs \<and> list_all (is_stat_or_sleep dp) evs
           \<and> length (filter is_probe evs) \<le> nat m
           \<and> (probe_notfound (last evs) \<longrightarrow> length (filter is_probe evs) = nat m)"
proof -
  obtain out tr' where run: "waitLoop sys m ISCSITranslateTCP 0 dp tr = (out, tr')"
    by (cases "waitLoop sys m ISCSITranslateTCP 0 dp tr") auto
  from waitLoop_tcp [OF run] obtain b evs where
    o: "out = Returned (b, dp)" "tr' = tr @ evs" "list_all (is_stat_or_sleep dp) evs" by blast
  from waitLoop_shape [OF assms run] o(2) have
    sh: "attempts evs" "length (filter is_probe evs) \<le> nat m" "map_outcome fst out = verdict (last evs)"
      "probe_notfound (last evs) \<longrightarrow> length (filter is_probe evs) = nat m"
    by auto
  from sh(1) have "evs \<noteq> []" by auto
  with o(3) have "is_stat_or_sleep dp (last evs)" by (simp add: list_all_iff)
  with sh(3) o(1) have "b = probe_ok (last evs)" by (simp add: verdict_stat_or_sleep)
  with run o sh show ?thesis
    by (intro exI [of _ evs]) (simp add: waitForPathToExist_def waitForPathToExistInternal_def)
qed

lemma SetAuth_cases:
  assumes "SetAuth sys portal iqn name passwd tr = (out, tr')"
  obtains
    (username_failed) u e where "out = Exited e"
      "tr' = tr @ [EvExec ''iscsiadm'' (updateArgs portal iqn ''node.session.auth.username'' name) u (Some e)]"
  | (password_failed) u p e where "out = Exited e"
      "tr' = tr @ [EvExec ''iscsiadm'' (updateArgs portal iqn ''node.session.auth.username'' name) u None,
                   EvExec ''iscsiadm'' (updateArgs portal iqn ''node.session.auth.password'' passwd) p (Some e)]"
  | (auth_set) u p where "out = Returned None"
      "tr' = tr @ [EvExec ''iscsiadm'' (updateArgs portal iqn ''node.session.auth.username'' name) u None,
                   EvExec ''iscsiadm'' (updateArgs portal iqn ''node.session.auth.password'' passwd) p None]"
  using assms
  by (auto simp: SetAuth_def exec_fatal andThen_def [of "andThen (execCmd sys _ _) fatalOnError"]
      split: option.splits)

lemma Connect_cases:
  assumes run: "Connect sys parse connMap tr = (out, tr')"
    and conn: "parse connMap = conn"
    and dp: "connectDevicePath conn = dp"
  obtains
    (present) "out = Returned (dp, None)" "tr' = tr @ [EvStat dp None]"
  | (discovery_failed) e0 d e where "out = Exited e"
      "tr' = tr @ [EvStat dp (Some e0), EvExec ''iscsiadm'' (discoveryArgs (TgtPortal conn)) d (Some e)]"
  | (auth_failed) e0 d auth k v u e where "out = Exited e" "length (AuthMethod conn) \<noteq> 0"
      "list_all (\<lambda>ev. \<exists>k v u. ev = EvExec ''iscsiadm'' (updateArgs (TgtPortal conn) (TgtIQN conn) k v) u None) auth"
      "tr' = tr @ [EvStat dp (Some e0), EvExec ''iscsiadm'' (discoveryArgs (TgtPortal conn)) d None] @ auth
         @ [EvExec ''iscsiadm'' (updateArgs (TgtPortal conn) (TgtIQN conn) k v) u (Some e)]"
  | (login_failed) e0 d auth l e where "out = Exited e"
      "list_all (\<lambda>ev. \<exists>k v u. ev = EvExec ''iscsiadm'' (updateArgs (TgtPortal conn) (TgtIQN conn) k v) u None) auth"
      "tr' = tr @ [EvStat dp (Some e0), EvExec ''iscsiadm'' (discoveryArgs (TgtPortal conn)) d None] @ auth
         @ [EvExec ''iscsiadm'' (loginArgs (TgtPortal conn) (TgtIQN conn)) l (Some e)]"
  | (polled) e0 d auth l poll where
      "out = Returned (if probe_ok (last poll) then (dp, None)
                       else ('''', Some (ErrorsNew ''Could not connect volume: Timeout after 10s'')))"
      "list_all (\<lambda>ev. \<exists>k v u. ev = EvExec ''iscsiadm'' (updateArgs (TgtPortal conn) (TgtIQN conn) k v) u None) auth"
      "attempts poll" "list_all (is_stat_or_sleep dp) poll" "length (filter is_probe poll) \<le> 10"
      "probe_notfound (last poll) \<longrightarrow> length (filter is_probe poll) = 10"
      "tr' = tr @ [EvStat dp (Some e0), EvExec ''iscsiadm'' (discoveryArgs (TgtPortal conn)) d None] @ auth
         @ [EvExec ''iscsiadm'' (loginArgs (TgtPortal conn) (TgtIQN conn)) l None] @ poll"
proof (cases "osStat sys tr dp")
  case None
  with run conn dp have "out = Returned (dp, None)" "tr' = tr @ [EvStat dp None]"
    by (auto simp: Connect_def Let_def andThen_def waitForPathToExist_once ret_def)
  then show ?thesis by (rule present)
next
  case (Some e0)
  let ?portal = "TgtPortal conn" and ?iqn = "TgtIQN conn"
  let ?tr1 = "tr @ [EvStat dp (Some e0)]"
  let ?d = "execCommand sys ?tr1 ''iscsiadm'' (discoveryArgs ?portal)"
  let ?tr2 = "?tr1 @ [EvExec ''iscsiadm'' (discoveryArgs ?portal) (fst ?d) (snd ?d)]"
  let ?auth = "if length (AuthMethod conn) \<noteq> 0
               then SetAuth sys ?portal ?iqn (AuthUser conn) (AuthPass conn) else ret None"
  let ?rest = "\<lambda>tr3. andThen (Login sys ?portal ?iqn) (\<lambda>err.
                 case err of
                   Some e \<Rightarrow> ret ('''', Some e)
                 | None \<Rightarrow>
                     andThen (waitForPathToExist sys (Some dp) 10 ISCSITranslateTCP) (\<lambda>(isexist2, p2).
                       if \<not> isexist2
                       then ret ('''', Some (ErrorsNew ''Could not connect volume: Timeout after 10s''))
                       else ret (pointee p2 dp, None))) tr3"
  have step1: "(out, tr') =
     (case snd ?d of
        Some e \<Rightarrow> (Exited e, ?tr2)
      | None \<Rightarrow> andThen ?auth (\<lambda>_. ?rest) ?tr2)"
    using run conn dp Some
    by (cases "snd ?d")
       (auto simp: Connect_def Let_def andThen_def [of "waitForPathToExist sys _ _ _"]
        waitForPathToExist_once Discovery_def
        andThen_def [of "andThen (execCmd sys _ _) fatalOnError"] exec_fatal
        cong del: if_weak_cong)
  show ?thesis
  proof (cases "snd ?d")
    case (Some e)
    with step1 have "out = Exited e" "tr' = ?tr2" by simp_all
    with Some show ?thesis by (intro discovery_failed [of e e0 "fst ?d"]) simp_all
  next
    case None
    note d_ok = this
    with step1 have step2: "(out, tr') = andThen ?auth (\<lambda>_. ?rest) ?tr2" by simp
    obtain ao tr3 where auth: "?auth ?tr2 = (ao, tr3)" by (cases "?auth ?tr2") auto
    have rest_cases: thesis
      if r: "(out, tr') = ?rest (?tr2 @ auth)"
        and a: "list_all (\<lambda>ev. \<exists>k v u. ev = EvExec ''iscsiadm'' (updateArgs ?portal ?iqn k v) u None) auth"
      for auth
    proof -
      let ?tr3 = "?tr2 @ auth"
      let ?l = "execCommand sys ?tr3 ''iscsiadm'' (loginArgs ?portal ?iqn)"
      let ?tr4 = "?tr3 @ [EvExec ''iscsiadm'' (loginArgs ?portal ?iqn) (fst ?l) (snd ?l)]"
      have step3: "(out, tr') =
        (case snd ?l of
           Some e \<Rightarrow> (Exited e, ?tr4)
         | None \<Rightarrow> andThen (waitForPathToExist sys (Some dp) 10 ISCSITranslateTCP) (\<lambda>(isexist2, p2).
                       if \<not> isexist2
                       then ret ('''', Some (ErrorsNew ''Could not connect volume: Timeout after 10s''))
                       else ret (pointee p2 dp, None)) ?tr4)"
        using r
        by (cases "snd ?l")
           (auto simp: Login_def andThen_def [of "andThen (execCmd sys _ _) fatalOnError"] exec_fatal)
      show thesis
      proof (cases "snd ?l")
        case (Some e)
        with step3 have "out = Exited e" "tr' = ?tr4" by simp_all
        with Some d_ok a show thesis
          by (intro login_failed [of e auth e0 "fst ?d" "fst ?l"]) simp_all
      next
        case None
        from waitForPathToExist_tcp [of 10 sys dp ?tr4] obtain poll where
          poll: "waitForPathToExist sys (Some dp) 10 ISCSITranslateTCP ?tr4
                   = (Returned (probe_ok (last poll), Some dp), ?tr4 @ poll)"
            "attempts poll" "list_all (is_stat_or_sleep dp) poll" "length (filter is_probe poll) \<le> nat 10"
            "probe_notfound (last poll) \<longrightarrow> length (filter is_probe poll) = nat 10"
          by auto
        from step3 None poll(1) have
          "out = Returned (if probe_ok (last poll) then (dp, None)
                       else ('''', Some (ErrorsNew ''Could not connect volume: Timeout after 10s'')))"
          "tr' = ?tr4 @ poll"
          by (auto simp: andThen_def ret_def split: if_splits)
        with None d_ok a poll(2-5) show thesis
          by (intro polled [of poll auth e0 "fst ?d" "fst ?l"]) simp_all
      qed
    qed
    show ?thesis
    proof (cases "length (AuthMethod conn) \<noteq> 0")
      case False
      with step2 have "(out, tr') = ?rest (?tr2 @ [])"
        by (simp add: andThen_ret)
      then show ?thesis by (rule rest_cases) simp
    next
      case True
      with auth have sa: "SetAuth sys ?portal ?iqn (AuthUser conn) (AuthPass conn) ?tr2 = (ao, tr3)" by simp
      from sa show ?thesis
      proof (cases rule: SetAuth_cases)
        case (username_failed u e)
        with step2 True sa have "out = Exited e" "tr' = tr3"
          by (simp_all add: andThen_def [of "SetAuth _ _ _ _ _"])
        with username_failed True d_ok show ?thesis
          by (intro auth_failed [of e "[]" e0 "fst ?d" _ _ u]) simp_all
      next
        case (password_failed u p e)
        with step2 True sa have "out = Exited e" "tr' = tr3"
          by (simp_all add: andThen_def [of "SetAuth _ _ _ _ _"])
        with password_failed True d_ok show ?thesis
          by (intro auth_failed [of e "[EvExec ''iscsiadm'' (updateArgs ?portal ?iqn ''node.session.auth.username'' (AuthUser conn)) u None]" e0 "fst ?d" _ _ p])
             auto
      next
        case (auth_set u p)
        with step2 True sa have "(out, tr') = ?rest tr3"
          by (simp add: andThen_def [of "SetAuth _ _ _ _ _"])
        with auth_set show ?thesis
          by (intro rest_cases [of "[EvExec ''iscsiadm'' (updateArgs ?portal ?iqn ''node.session.auth.username'' (AuthUser conn)) u None,
                   EvExec ''iscsiadm'' (updateArgs ?portal ?iqn ''node.session.auth.password'' (AuthPass conn)) p None]"])
             auto
      qed
    qed
  qed
qed

lemma connectDevicePath_demoConn: "connectDevicePath demoConn = demoPath"
  by (simp add: connectDevicePath_def demoConn_def demoPath_def Itoa_def)

lemmas connect_eval =
  Connect_def Let_def connectDevicePath_def Itoa_def demoPath_def demoAbsent_def
  waitForPathToExist_once waitForPathToExist_def waitForPathToExistInternal_def probe_def
  ISCSITranslateTCP_def andThen_def ret_def
  Discovery_def SetAuth_def Login_def execCmd_def fatalOnError_def
  scripted_def allCommandsSucceed_def passwordUpdateFails_def chapConn_def demoConn_def
  discoveryArgs_def updateArgs_def loginArgs_def

text \<open>
  Claim C6. When the computed device path exists at the first probe, \<open>Connect\<close> returns
  that path with a nil error, and the only host call it makes is that one stat: no
  discovery, no auth update and no login command is run.
\<close>

theorem Connect_present_is_idempotent:
  assumes "osStat sys tr (connectDevicePath (parse connMap)) = None"
  shows "Connect sys parse connMap tr =
           (Returned (connectDevicePath (parse connMap), None),
            tr @ [EvStat (connectDevicePath (parse connMap)) None])"
  using assms
  by (simp add: Connect_def Let_def andThen_def waitForPathToExist_once ret_def)

theorem Connect_present_is_idempotent_witness:
  "osStat alwaysPresent [] (connectDevicePath (id demoConn)) = None
   \<and> Connect alwaysPresent id demoConn [] = (Returned (demoPath, None), [EvStat demoPath None])"
proof -
  have h: "osStat alwaysPresent [] (connectDevicePath (id demoConn)) = None"
    by (simp add: alwaysPresent_def scripted_def)
  from Connect_present_is_idempotent [of alwaysPresent "[]" id demoConn, OF h] h
  show ?thesis by (simp add: connectDevicePath_demoConn)
qed

lemma args_distinct [simp]:
  "updateArgs p t k v \<noteq> discoveryArgs p'" "updateArgs p t k v \<noteq> loginArgs p' t'"
  "loginArgs p t \<noteq> discoveryArgs p'" "loginArgs p t \<noteq> updateArgs p' t' k v"
  "logoutArgs p t \<noteq> discoveryArgs p'" "logoutArgs p t \<noteq> updateArgs p' t' k v"
  "logoutArgs p t \<noteq> loginArgs p' t'"
  by (simp_all add: updateArgs_def discoveryArgs_def loginArgs_def logoutArgs_def)

text \<open>
  Claim C2. A failing auth-update sub-step aborts the connect before login. Whenever
  one of the \<^verbatim>\<open>--op=update\<close> commands of a \<open>Connect\<close> run ends with an error \<open>e\<close>, the
  run ends there: the outcome is \<open>Exited e\<close> (\<^verbatim>\<open>log.Fatalf\<close> in \<^verbatim>\<open>SetAuth\<close> logs the
  error and ends the process), the failed command is the last host call, the auth
  method was non-empty, and no login command was run. \<open>Connect\<close> drops the value
  \<^verbatim>\<open>SetAuth\<close> returns, but \<^verbatim>\<open>SetAuth\<close> returns only when both sub-steps succeeded.
\<close>

theorem Connect_auth_failure_aborts:
  assumes "Connect sys parse connMap tr = (out, tr @ evs)"
    and "EvExec ''iscsiadm'' (updateArgs (TgtPortal (parse connMap)) (TgtIQN (parse connMap)) key v) u (Some e) \<in> set evs"
  shows "out = Exited e
       \<and> last evs = EvExec ''iscsiadm'' (updateArgs (TgtPortal (parse connMap)) (TgtIQN (parse connMap)) key v) u (Some e)
       \<and> length (AuthMethod (parse connMap)) \<noteq> 0
       \<and> (\<forall>p t l r. EvExec ''iscsiadm'' (loginArgs p t) l r \<notin> set evs)"
  using assms(1) refl refl
proof (cases rule: Connect_cases)
  case present
  with assms(2) show ?thesis by auto
next
  case (discovery_failed e0 d e)
  with assms(2) show ?thesis by auto
next
  case (auth_failed e0 d auth k v u e)
  with assms(2) show ?thesis by (auto simp: list_all_iff)
next
  case (login_failed e0 d auth l e)
  with assms(2) show ?thesis by (auto simp: list_all_iff)
next
  case (polled e0 d auth l poll)
  with assms(2) show ?thesis by (auto simp: list_all_iff)
qed

text \<open>
  With CHAP credentials and a host that rejects the password update, the run is the
  first probe, the discovery, the username update and the failed password update.
\<close>

theorem Connect_auth_failure_aborts_witness:
  "Connect passwordRejected id chapConn [] = (Exited (SysError ''exit status 21''), [] @ rejectedTrace)
   \<and> EvExec ''iscsiadm'' (updateArgs (TgtPortal (id chapConn)) (TgtIQN (id chapConn)) ''node.session.auth.password'' ''secret'')
         ''iscsiadm: No records found'' (Some (SysError ''exit status 21'')) \<in> set rejectedTrace
   \<and> length (AuthMethod (id chapConn)) \<noteq> 0"
proof -
  have run: "Connect passwordRejected id chapConn [] = (Exited (SysError ''exit status 21''), [] @ rejectedTrace)"
    by (simp add: connect_eval passwordRejected_def rejectedTrace_def)
  have ev: "EvExec ''iscsiadm'' (updateArgs (TgtPortal (id chapConn)) (TgtIQN (id chapConn)) ''node.session.auth.password'' ''secret'')
         ''iscsiadm: No records found'' (Some (SysError ''exit status 21'')) \<in> set rejectedTrace"
    by (simp add: rejectedTrace_def chapConn_def demoConn_def)
  from Connect_auth_failure_aborts [OF run ev] run ev show ?thesis by blast
qed

text \<open>
  Claim C7. When login succeeded and no probe of the run, neither the first one nor
  any after login, reported existence, \<open>Connect\<close> returns the error
  \<^verbatim>\<open>errors.New("Could not connect volume: Timeout after 10s")\<close>. It is not the error
  of a tool: every command of the run succeeded (a failed one ends the process
  instead of returning). No logout command was run, so the session stays logged in.
  The run ends with a probe, makes at most eleven probes (one before discovery, at most
  ten after login), and exactly eleven when the last one still reported "does not exist".
\<close>

theorem Connect_timeout_after_login:
  assumes "Connect sys parse connMap tr = (out, tr @ evs)"
    and "EvExec ''iscsiadm'' (loginArgs (TgtPortal (parse connMap)) (TgtIQN (parse connMap))) l None \<in> set evs"
    and "list_all (\<lambda>ev. \<not> probe_ok ev) evs"
  shows "out = Returned ('''', Some (ErrorsNew ''Could not connect volume: Timeout after 10s''))
       \<and> (\<forall>n a d r. EvExec n a d r \<in> set evs \<longrightarrow> r = None)
       \<and> (\<forall>p t d r. EvExec ''iscsiadm'' (logoutArgs p t) d r \<notin> set evs)
       \<and> is_probe (last evs)
       \<and> length (filter is_probe evs) \<le> 11
       \<and> (probe_notfound (last evs) \<longrightarrow> length (filter is_probe evs) = 11)"
  using assms(1) refl refl
proof (cases rule: Connect_cases)
  case present
  with assms(2) show ?thesis by auto
next
  case (discovery_failed e0 d e)
  with assms(2) show ?thesis by auto
next
  case (auth_failed e0 d auth k v u e)
  with assms(2) show ?thesis by (auto simp: list_all_iff)
next
  case (login_failed e0 d auth l e)
  with assms(2) show ?thesis by (auto simp: list_all_iff)
next
  case (polled e0 d auth l poll)
  from polled(3) have ne: "poll \<noteq> []" by auto
  from polled(7) have evs: "evs = [EvStat (connectDevicePath (parse connMap)) (Some e0),
       EvExec ''iscsiadm'' (discoveryArgs (TgtPortal (parse connMap))) d None] @ auth
         @ [EvExec ''iscsiadm'' (loginArgs (TgtPortal (parse connMap)) (TgtIQN (parse connMap))) l None] @ poll"
    by simp
  with ne have last: "last evs = last poll" by simp
  from assms(3) evs ne have "\<not> probe_ok (last poll)" by (simp add: list_all_iff)
  with polled(1) have out: "out = Returned ('''', Some (ErrorsNew ''Could not connect volume: Timeout after 10s''))"
    by simp
  have auth_probe: "filter is_probe auth = []"
    using polled(2) by (auto simp: list_all_iff filter_empty_conv)
  have cnt: "length (filter is_probe evs) = Suc (length (filter is_probe poll))"
    using evs auth_probe by simp
  have execs: "\<forall>n a d r. EvExec n a d r \<in> set evs \<longrightarrow> r = None"
    using evs polled(2,4) by (auto simp: list_all_iff)
  have nologout: "\<forall>p t d r. EvExec ''iscsiadm'' (logoutArgs p t) d r \<notin> set evs"
    using evs polled(2,4) by (auto simp: list_all_iff)
  from out execs nologout last cnt attempts_last [OF polled(3)] polled(5,6)
  show ?thesis by simp
qed

theorem Connect_timeout_after_login_witness:
  "Connect neverAppears id demoConn [] =
     (Returned ('''', Some (ErrorsNew ''Could not connect volume: Timeout after 10s'')), [] @ timeoutTrace)
   \<and> EvExec ''iscsiadm'' (loginArgs (TgtPortal (id demoConn)) (TgtIQN (id demoConn))) '''' None \<in> set timeoutTrace
   \<and> list_all (\<lambda>ev. \<not> probe_ok ev) timeoutTrace
   \<and> is_probe (last timeoutTrace)
   \<and> length (filter is_probe timeoutTrace) = 11"
proof -
  have run: "Connect neverAppears id demoConn [] =
     (Returned ('''', Some (ErrorsNew ''Could not connect volume: Timeout after 10s'')), [] @ timeoutTrace)"
    by (simp add: connect_eval neverAppears_def timeoutTrace_def)
  have ev: "EvExec ''iscsiadm'' (loginArgs (TgtPortal (id demoConn)) (TgtIQN (id demoConn))) '''' None \<in> set timeoutTrace"
    by (simp add: timeoutTrace_def demoConn_def)
  have never: "list_all (\<lambda>ev. \<not> probe_ok ev) timeoutTrace"
    by (simp add: timeoutTrace_def demoAbsent_def)
  have nf: "probe_notfound (last timeoutTrace)"
    by (simp add: timeoutTrace_def demoAbsent_def)
  from Connect_timeout_after_login [OF run ev never] nf run ev never show ?thesis by blast
qed

section \<open>Format and Mount\<close>

text \<open>
  A field that contains \<^verbatim>\<open>TYPE=\<close> contains \<^verbatim>\<open>=\<close>, so splitting it at \<^verbatim>\<open>=\<close> gives at
  least two parts: the index expression in \<^verbatim>\<open>GetFSType\<close> never panics, and
  \<^verbatim>\<open>GetFSType\<close> always returns after its one \<^verbatim>\<open>blkid\<close> call.
\<close>

lemma HasPrefix_set: "HasPrefix s p \<Longrightarrow> set p \<subseteq> set s"
  by (induction s p rule: HasPrefix.induct) auto

lemma Contains_set: "Contains s sub \<Longrightarrow> set sub \<subseteq> set s"
proof (induction s sub rule: Contains.induct)
  case (1 substr)
  then show ?case by simp
next
  case (2 c cs substr)
  from "2.prems" have "HasPrefix (c # cs) substr \<or> Contains cs substr" by simp
  then show ?case
  proof
    assume "HasPrefix (c # cs) substr"
    then show ?thesis by (rule HasPrefix_set)
  next
    assume "Contains cs substr"
    with "2.IH" show ?thesis by auto
  qed
qed

lemma Split_nonempty: "Split s c \<noteq> []"
  by (induction s c rule: Split.induct) (auto split: list.splits)

lemma Split_two: "c \<in> set s \<Longrightarrow> \<exists>a b rest. Split s c = a # b # rest"
proof (induction s c rule: Split.induct)
  case (1 sep)
  then show ?case by simp
next
  case (2 d cs sep)
  then show ?case
    using Split_nonempty [of cs sep]
    by (cases "Split cs sep") (auto split: list.splits)
qed

lemma scanFSType_returns: "\<exists>t. scanFSType vs acc = Returned t"
proof (induction vs arbitrary: acc)
  case Nil
  then show ?case by simp
next
  case (Cons v vs)
  show ?case
  proof (cases "Contains v ''TYPE=''")
    case True
    from Contains_set [OF True] have "CHR ''='' \<in> set v" by simp
    from Split_two [OF this] obtain a b rest where "Split v CHR ''='' = a # b # rest" by blast
    with True Cons show ?thesis by simp
  next
    case False
    with Cons show ?thesis by simp
  qed
qed

lemma GetFSType_blkid:
  "\<exists>t. GetFSType sys device tr =
     (Returned t, tr @ [EvExec ''blkid'' [device] (fst (execCommand sys tr ''blkid'' [device]))
                                               (snd (execCommand sys tr ''blkid'' [device]))])
     \<and> (snd (execCommand sys tr ''blkid'' [device]) \<noteq> None \<longrightarrow> t = '''')"
proof -
  obtain res err where r: "execCommand sys tr ''blkid'' [device] = (res, err)"
    by (cases "execCommand sys tr ''blkid'' [device]")
  obtain t where "scanFSType (Split res CHR '' '') '''' = Returned t"
    using scanFSType_returns by blast
  with r show ?thesis
    by (cases err) (auto simp: GetFSType_def andThen_def execCmd_def Let_def)
qed

lemmas format_eval =
  GetFSType_def Format_def Mount_def andThen_def ret_def execCmd_def fatalOnError_def Let_def
  scripted_def blkidFindsExt4_def blkidFails_def mkdirFails_def allCommandsSucceed_def
  blkidOutput_def Replace_def

text \<open>
  Claim C8. \<open>Format\<close> is idempotent, and a failed probe counts as "no signature".
  First part: when \<^verbatim>\<open>GetFSType\<close> reports a non-empty type, \<open>Format\<close> returns nil for
  every requested \<open>fstype\<close>, and the only command run is the \<^verbatim>\<open>blkid\<close> of the probe:
  no \<^verbatim>\<open>mkfs\<close>. Second part: when \<^verbatim>\<open>blkid\<close> fails, \<open>Format\<close> does not stop there: it runs
  \<^verbatim>\<open>mkfs -t T -F device\<close> next, with \<open>T\<close> the requested type, or \<^verbatim>\<open>ext4\<close> when that is
  empty, and returns nil when \<^verbatim>\<open>mkfs\<close> succeeds (a failing \<^verbatim>\<open>mkfs\<close> ends the process).
\<close>

theorem Format_idempotent:
  "(GetFSType sys device tr = (Returned curFSType, tr1) \<and> curFSType \<noteq> '''' \<longrightarrow>
      Format sys device fstype tr = (Returned None, tr1)
      \<and> (\<exists>res. tr1 = tr @ [EvExec ''blkid'' [device] res None]))
   \<and> (snd (execCommand sys tr ''blkid'' [device]) = Some e \<longrightarrow>
      (let res = fst (execCommand sys tr ''blkid'' [device]);
           tr2 = tr @ [EvExec ''blkid'' [device] res (Some e)];
           mkfsArgs = [''-t'', if fstype = '''' then ''ext4'' else fstype, ''-F'', device];
           m = execCommand sys tr2 ''mkfs'' mkfsArgs
       in Format sys device fstype tr =
            (case snd m of None \<Rightarrow> Returned None | Some e2 \<Rightarrow> Exited e2,
             tr2 @ [EvExec ''mkfs'' mkfsArgs (fst m) (snd m)])))"
proof (intro conjI impI)
  assume a: "GetFSType sys device tr = (Returned curFSType, tr1) \<and> curFSType \<noteq> ''''"
  then show "Format sys device fstype tr = (Returned None, tr1)"
    by (simp add: Format_def andThen_def ret_def)
  from GetFSType_blkid [of sys device tr] a
  show "\<exists>res. tr1 = tr @ [EvExec ''blkid'' [device] res None]"
    by (cases "snd (execCommand sys tr ''blkid'' [device])") auto
next
  assume b: "snd (execCommand sys tr ''blkid'' [device]) = Some e"
  with GetFSType_blkid [of sys device tr]
  have g: "GetFSType sys device tr =
     (Returned '''', tr @ [EvExec ''blkid'' [device] (fst (execCommand sys tr ''blkid'' [device])) (Some e)])"
    by auto
  show "let res = fst (execCommand sys tr ''blkid'' [device]);
           tr2 = tr @ [EvExec ''blkid'' [device] res (Some e)];
           mkfsArgs = [''-t'', if fstype = '''' then ''ext4'' else fstype, ''-F'', device];
           m = execCommand sys tr2 ''mkfs'' mkfsArgs
       in Format sys device fstype tr =
            (case snd m of None \<Rightarrow> Returned None | Some e2 \<Rightarrow> Exited e2,
             tr2 @ [EvExec ''mkfs'' mkfsArgs (fst m) (snd m)])"
    by (simp add: Format_def andThen_def [of "GetFSType _ _"] g exec_fatal Let_def)
qed

text \<open>
  On a disk with an ext4 signature a request for xfs runs \<^verbatim>\<open>blkid\<close> and nothing else;
  on a disk \<^verbatim>\<open>blkid\<close> cannot read, a request with no type runs \<^verbatim>\<open>mkfs -t ext4\<close>.
\<close>

theorem Format_idempotent_witness:
  "GetFSType formattedDisk ''/dev/sdb'' [] = (Returned ''ext4'', [EvExec ''blkid'' [''/dev/sdb''] blkidOutput None])
   \<and> ''ext4'' \<noteq> ''''
   \<and> Format formattedDisk ''/dev/sdb'' ''xfs'' [] = (Returned None, [EvExec ''blkid'' [''/dev/sdb''] blkidOutput None])
   \<and> snd (execCommand unreadableDisk [] ''blkid'' [''/dev/sdb'']) = Some (SysError ''exit status 2'')
   \<and> Format unreadableDisk ''/dev/sdb'' '''' [] =
        (Returned None,
         [EvExec ''blkid'' [''/dev/sdb''] '''' (Some (SysError ''exit status 2'')),
          EvExec ''mkfs'' [''-t'', ''ext4'', ''-F'', ''/dev/sdb''] '''' None])"
proof -
  have g: "GetFSType formattedDisk ''/dev/sdb'' [] = (Returned ''ext4'', [EvExec ''blkid'' [''/dev/sdb''] blkidOutput None])
           \<and> ''ext4'' \<noteq> ''''"
    by (simp add: format_eval formattedDisk_def)
  have b: "snd (execCommand unreadableDisk [] ''blkid'' [''/dev/sdb'']) = Some (SysError ''exit status 2'')"
    by (simp add: unreadableDisk_def scripted_def blkidFails_def)
  from Format_idempotent [where sys = formattedDisk and device = "''/dev/sdb''" and tr = "[]"
      and curFSType = "''ext4''" and fstype = "''xfs''"] g
  have f1: "Format formattedDisk ''/dev/sdb'' ''xfs'' [] = (Returned None, [EvExec ''blkid'' [''/dev/sdb''] blkidOutput None])"
    by blast
  from Format_idempotent [where sys = unreadableDisk and device = "''/dev/sdb''" and tr = "[]"
      and fstype = "''''" and e = "SysError ''exit status 2''"] b
  have f2: "Format unreadableDisk ''/dev/sdb'' '''' [] =
        (Returned None,
         [EvExec ''blkid'' [''/dev/sdb''] '''' (Some (SysError ''exit status 2'')),
          EvExec ''mkfs'' [''-t'', ''ext4'', ''-F'', ''/dev/sdb''] '''' None])"
    by (simp add: Let_def unreadableDisk_def scripted_def blkidFails_def)
  from g b f1 f2 show ?thesis by blast
qed

text \<open>
  Claim C9 says that a failed \<^verbatim>\<open>mkdir\<close> does not abort \<open>Mount\<close> and that the mount is
  still attempted. On a host where \<^verbatim>\<open>mkdir\<close> fails and every other command would
  succeed, \<open>Mount\<close> ends in the process exit of \<^verbatim>\<open>log.Fatalf("failed to mkdir: ...")\<close>
  and the \<^verbatim>\<open>mount\<close> command is never run.
\<close>

theorem Mount_mkdir_failure_counterexample:
  "snd (execCommand readOnlyRoot [] ''mkdir'' [''-p'', ''/mnt/data'']) = Some (SysError ''exit status 1'')
   \<and> Mount readOnlyRoot ''/dev/sdb'' ''/mnt/data'' [] =
       (Exited (SysError ''exit status 1''),
        [EvExec ''mkdir'' [''-p'', ''/mnt/data''] ''mkdir: cannot create directory'' (Some (SysError ''exit status 1''))])
   \<and> EvExec ''mount'' [''/dev/sdb'', ''/mnt/data''] '''' None
        \<notin> set (snd (Mount readOnlyRoot ''/dev/sdb'' ''/mnt/data'' []))"
  by (simp add: format_eval readOnlyRoot_def)

text \<open>
  Claim C9 as amended. A failure of the directory-creation step ends the process
  inside \<^verbatim>\<open>log.Fatalf\<close> before the mount is attempted. When the directory creation
  succeeds, the mount of the device at the mount point is attempted next, and \<open>Mount\<close>
  returns nil when it succeeds; a failing mount ends the process as well, so \<open>Mount\<close>
  never returns a non-nil error.
\<close>

theorem Mount_mkdir_failure_is_fatal:
  "(snd (execCommand sys tr ''mkdir'' [''-p'', mountpoint]) = Some e \<longrightarrow>
      Mount sys device mountpoint tr =
        (Exited e, tr @ [EvExec ''mkdir'' [''-p'', mountpoint] (fst (execCommand sys tr ''mkdir'' [''-p'', mountpoint])) (Some e)]))
   \<and> (snd (execCommand sys tr ''mkdir'' [''-p'', mountpoint]) = None \<longrightarrow>
      (let tr1 = tr @ [EvExec ''mkdir'' [''-p'', mountpoint] (fst (execCommand sys tr ''mkdir'' [''-p'', mountpoint])) None];
           m = execCommand sys tr1 ''mount'' [device, mountpoint]
       in Mount sys device mountpoint tr =
            (case snd m of None \<Rightarrow> Returned None | Some e2 \<Rightarrow> Exited e2,
             tr1 @ [EvExec ''mount'' [device, mountpoint] (fst m) (snd m)])))"
  by (simp add: Mount_def andThen_def [of "andThen (execCmd _ _ _) fatalOnError"] exec_fatal Let_def)

theorem Mount_mkdir_failure_is_fatal_witness:
  "snd (execCommand readOnlyRoot [] ''mkdir'' [''-p'', ''/mnt/data'']) = Some (SysError ''exit status 1'')
   \<and> Mount readOnlyRoot ''/dev/sdb'' ''/mnt/data'' [] =
       (Exited (SysError ''exit status 1''),
        [EvExec ''mkdir'' [''-p'', ''/mnt/data''] ''mkdir: cannot create directory'' (Some (SysError ''exit status 1''))])
   \<and> snd (execCommand alwaysPresent [] ''mkdir'' [''-p'', ''/mnt/data'']) = None
   \<and> Mount alwaysPresent ''/dev/sdb'' ''/mnt/data'' [] =
       (Returned None,
        [EvExec ''mkdir'' [''-p'', ''/mnt/data''] '''' None, EvExec ''mount'' [''/dev/sdb'', ''/mnt/data''] '''' None])"
proof -
  have a: "snd (execCommand readOnlyRoot [] ''mkdir'' [''-p'', ''/mnt/data'']) = Some (SysError ''exit status 1'')"
    by (simp add: readOnlyRoot_def scripted_def mkdirFails_def)
  have b: "snd (execCommand alwaysPresent [] ''mkdir'' [''-p'', ''/mnt/data'']) = None"
    by (simp add: alwaysPresent_def scripted_def allCommandsSucceed_def)
  from Mount_mkdir_failure_is_fatal [where sys = readOnlyRoot and tr = "[]" and mountpoint = "''/mnt/data''"
      and e = "SysError ''exit status 1''" and device = "''/dev/sdb''"] a
  have m1: "Mount readOnlyRoot ''/dev/sdb'' ''/mnt/data'' [] =
       (Exited (SysError ''exit status 1''),
        [EvExec ''mkdir'' [''-p'', ''/mnt/data''] ''mkdir: cannot create directory'' (Some (SysError ''exit status 1''))])"
    by (simp add: readOnlyRoot_def scripted_def mkdirFails_def)
  from Mount_mkdir_failure_is_fatal [where sys = alwaysPresent and tr = "[]" and mountpoint = "''/mnt/data''"
      and device = "''/dev/sdb''"] b
  have m2: "Mount alwaysPresent ''/dev/sdb'' ''/mnt/data'' [] =
       (Returned None,
        [EvExec ''mkdir'' [''-p'', ''/mnt/data''] '''' None, EvExec ''mount'' [''/dev/sdb'', ''/mnt/data''] '''' None])"
    by (simp add: Let_def alwaysPresent_def scripted_def allCommandsSucceed_def)
  from a b m1 m2 show ?thesis by blast
qed

section \<open>The registry\<close>

lemmas controller_eval =
  CreateServiceInstance_def Bind_def UnBind_def RemoveServiceInstance_def volumeSpecOf_def
  attachmentSpecOf_def obind_def assertString_def assertInt64_def mapAssign_def new_VolumeSpec_def
  credentialOf_def demoClient_def otherClient_def noInstances_def demoRequest_def demoBinding_def
  lvPathRequest_def lvPathBinding_def Let_def

lemma afterCreate: "afterCreate = [''i1'' \<mapsto> demoInstance]"
  by (simp add: afterCreate_def demoInstance_def controller_eval)

lemma afterBind:
  "afterBind = [''i1'' \<mapsto> demoInstance\<lparr>Credential :=
      [''volumeId'' \<mapsto> VString ''v-1'', ''image'' \<mapsto> VString ''OPENSDS:data:v-1'',
       ''attachmentId'' \<mapsto> VString ''a-1'', ''connectionInfo'' \<mapsto> VConnectionInfo ''iscsi 10.0.0.1:3260'']\<rparr>]"
  by (simp add: afterBind_def afterCreate demoInstance_def controller_eval)

lemma afterUnBind: "afterUnBind = [''i1'' \<mapsto> demoInstance\<lparr>Credential := Map.empty\<rparr>]"
  by (simp add: afterUnBind_def afterBind demoInstance_def controller_eval)

lemma obind_simps [simp]:
  "obind (Returned a) f = f a" "obind (Exited e) f = Exited e" "obind (Panicked p) f = Panicked p"
  by (simp_all add: obind_def)

lemma mapAssign_simps [simp]:
  "mapAssign None k v = Panicked NilMapAssignment" "mapAssign (Some f) k v = Returned (Some (f(k \<mapsto> v)))"
  by (simp_all add: mapAssign_def)

lemma UnBind_clears_all:
  assumes "UnBind client instanceID bindingID serviceID planID instances = (Returned None, instances')"
  shows "\<exists>inst. instances instanceID = Some inst
           \<and> instances' = instances(instanceID \<mapsto> inst\<lparr>Credential := Map.empty\<rparr>)
           \<and> credentialOf instances' instanceID ''volumeId'' = None"
  using assms
  by (auto simp: UnBind_def credentialOf_def split: option.splits outcome.splits)

text \<open>
  Claim C1 says that a successful \<open>Bind\<close> followed by a successful \<open>UnBind\<close> leaves the
  volume id in the instance's credential set and removes the attachment-scoped keys.
  The code removes both: \<open>UnBind\<close> replaces the credential set by an empty one
  (\<open>UnBind_clears_all\<close>). Here an instance is created, bound and unbound, every step
  succeeding. After the unbind the instance is still registered, the attachment id and
  the connection information are gone, and so is the volume id; from then on
  \<open>RemoveServiceInstance\<close> and \<open>Bind\<close> on that instance fail with "Volume id not
  provided in credential info!", so the volume can no longer be deleted or attached
  through the registry.
\<close>

theorem Bind_UnBind_drops_volume_id:
  "credentialOf afterCreate ''i1'' ''volumeId'' = Some (VString ''v-1'')
   \<and> fst (Bind demoClient ''i1'' ''b1'' demoBinding afterCreate) =
        Returned (Inr \<lparr>Credentials =
          [''volumeId'' \<mapsto> VString ''v-1'', ''image'' \<mapsto> VString ''OPENSDS:data:v-1'',
           ''attachmentId'' \<mapsto> VString ''a-1'', ''connectionInfo'' \<mapsto> VConnectionInfo ''iscsi 10.0.0.1:3260'']\<rparr>)
   \<and> credentialOf afterBind ''i1'' ''volumeId'' = Some (VString ''v-1'')
   \<and> credentialOf afterBind ''i1'' ''attachmentId'' = Some (VString ''a-1'')
   \<and> fst (UnBind demoClient ''i1'' ''b1'' ''svc'' ''plan'' afterBind) = Returned None
   \<and> afterUnBind ''i1'' \<noteq> None
   \<and> credentialOf afterUnBind ''i1'' ''attachmentId'' = None
   \<and> credentialOf afterUnBind ''i1'' ''connectionInfo'' = None
   \<and> credentialOf afterUnBind ''i1'' ''volumeId'' = None
   \<and> fst (RemoveServiceInstance demoClient ''i1'' ''svc'' ''plan'' False afterUnBind) =
        Returned (Inl (ErrorsNew ''Volume id not provided in credential info!''))
   \<and> fst (Bind demoClient ''i1'' ''b2'' demoBinding afterUnBind) =
        Returned (Inl (ErrorsNew ''Volume id not provided in credential info!''))"
  by (simp add: afterCreate afterBind afterUnBind demoInstance_def controller_eval)

text \<open>
  Claim C3 says that \<open>CreateServiceInstance\<close> returns the credential set. It returns
  \<^verbatim>\<open>&brokerapi.CreateServiceInstanceResponse{}\<close>, which carries nothing: two calls
  that create different volumes, and store different credential sets, return the same
  response.
\<close>

theorem CreateServiceInstance_response_counterexample:
  "CreateVolume demoClient demoSpec = Inr \<lparr>GetId = ''v-1'', GetName = ''data''\<rparr>
   \<and> CreateVolume otherClient demoSpec = Inr \<lparr>GetId = ''v-2'', GetName = ''data''\<rparr>
   \<and> fst (CreateServiceInstance demoClient ''i1'' demoRequest noInstances) =
        Returned (Inr EmptyCreateServiceInstanceResponse)
   \<and> fst (CreateServiceInstance otherClient ''i1'' demoRequest noInstances) =
        Returned (Inr EmptyCreateServiceInstanceResponse)
   \<and> credentialOf (snd (CreateServiceInstance demoClient ''i1'' demoRequest noInstances)) ''i1'' ''volumeId''
        = Some (VString ''v-1'')
   \<and> credentialOf (snd (CreateServiceInstance otherClient ''i1'' demoRequest noInstances)) ''i1'' ''volumeId''
        = Some (VString ''v-2'')"
  by (simp add: controller_eval demoSpec_def)

text \<open>
  Claim C3 as amended. When the request builds a volume specification and the storage
  client's volume creation on it succeeds, the registry stores under the given id a
  new instance named by that id whose credential set holds the volume id under
  \<^verbatim>\<open>volumeId\<close> and the reference \<^verbatim>\<open>OPENSDS:<name>:<id>\<close> under \<^verbatim>\<open>image\<close>, and no
  attachment id; every other entry is unchanged; and the operation returns an empty
  response with a nil error. The credential set is kept in the registry and is not
  part of the response. Such a call carries no \<^verbatim>\<open>lvPath\<close> parameter, and the
  specification's metadata map is nil.
\<close>

theorem CreateServiceInstance_stores_instance:
  assumes "volumeSpecOf (Parameters req) = Returned in0"
    and "CreateVolume client in0 = Inr vol"
  shows "CreateServiceInstance client instanceID req instances =
           (Returned (Inr EmptyCreateServiceInstanceResponse),
            instances(instanceID \<mapsto>
              \<lparr>InstanceName = instanceID,
               Credential = [''volumeId'' \<mapsto> VString (GetId vol),
                             ''image'' \<mapsto> VString (''OPENSDS:'' @ GetName vol @ '':'' @ GetId vol)]\<rparr>))
       \<and> credentialOf (snd (CreateServiceInstance client instanceID req instances)) instanceID ''volumeId''
            = Some (VString (GetId vol))
       \<and> credentialOf (snd (CreateServiceInstance client instanceID req instances)) instanceID ''image''
            = Some (VString (''OPENSDS:'' @ GetName vol @ '':'' @ GetId vol))
       \<and> credentialOf (snd (CreateServiceInstance client instanceID req instances)) instanceID ''attachmentId''
            = None
       \<and> Metadata in0 = None
       \<and> Parameters req ''lvPath'' = None"
proof -
  have md: "Metadata in0 = None \<and> Parameters req ''lvPath'' = None"
    using assms(1)
    by (auto simp: volumeSpecOf_def assertString_def assertInt64_def new_VolumeSpec_def
        split: option.splits val.splits)
  with assms show ?thesis
    by (simp add: CreateServiceInstance_def credentialOf_def)
qed

theorem CreateServiceInstance_stores_instance_witness:
  "volumeSpecOf (Parameters demoRequest) = Returned demoSpec
   \<and> CreateVolume demoClient demoSpec = Inr \<lparr>GetId = ''v-1'', GetName = ''data''\<rparr>
   \<and> CreateServiceInstance demoClient ''i1'' demoRequest noInstances =
        (Returned (Inr EmptyCreateServiceInstanceResponse), noInstances(''i1'' \<mapsto> demoInstance))"
proof -
  have a: "volumeSpecOf (Parameters demoRequest) = Returned demoSpec"
    by (simp add: controller_eval demoSpec_def)
  have b: "CreateVolume demoClient demoSpec = Inr \<lparr>GetId = ''v-1'', GetName = ''data''\<rparr>"
    by (simp add: demoClient_def demoSpec_def)
  from CreateServiceInstance_stores_instance [OF a b, of "''i1''" noInstances] a b
  show ?thesis by (simp add: demoInstance_def)
qed

lemma volumeSpecOf_lvPath:
  assumes "params ''lvPath'' = Some lv"
  shows "\<exists>p. volumeSpecOf params = Panicked p"
    and "isString lv \<Longrightarrow> stringOrAbsent (params ''name'') \<Longrightarrow> stringOrAbsent (params ''description'')
          \<Longrightarrow> int64OrAbsent (params ''capacity'') \<Longrightarrow> volumeSpecOf params = Panicked NilMapAssignment"
proof -
  show "\<exists>p. volumeSpecOf params = Panicked p"
    using assms
    by (auto simp: volumeSpecOf_def assertString_def assertInt64_def new_VolumeSpec_def
        split: option.splits val.splits)
  show "volumeSpecOf params = Panicked NilMapAssignment"
    if "isString lv" "stringOrAbsent (params ''name'')" "stringOrAbsent (params ''description'')"
      "int64OrAbsent (params ''capacity'')"
  proof -
    from that(1) obtain s where lv: "lv = VString s" by (cases lv) auto
    from that(2) have n: "params ''name'' = None \<or> (\<exists>s. params ''name'' = Some (VString s))"
      by (cases "params ''name''"; cases "the (params ''name'')") auto
    from that(3) have d: "params ''description'' = None \<or> (\<exists>s. params ''description'' = Some (VString s))"
      by (cases "params ''description''"; cases "the (params ''description'')") auto
    from that(4) have c: "params ''capacity'' = None \<or> (\<exists>k. params ''capacity'' = Some (VInt64 k))"
      by (cases "params ''capacity''"; cases "the (params ''capacity'')") auto
    from n d c assms lv show ?thesis
      by (auto simp: volumeSpecOf_def assertString_def assertInt64_def new_VolumeSpec_def)
  qed
qed

lemma attachmentSpecOf_lvPath:
  assumes "params ''lvPath'' = Some lv"
  shows "\<exists>p. attachmentSpecOf volInterface params = Panicked p"
    and "isString lv \<Longrightarrow> isString volInterface \<Longrightarrow> attachmentSpecOf volInterface params = Panicked NilMapAssignment"
proof -
  show "\<exists>p. attachmentSpecOf volInterface params = Panicked p"
    using assms
    by (auto simp: attachmentSpecOf_def assertString_def Let_def split: val.splits)
  show "attachmentSpecOf volInterface params = Panicked NilMapAssignment"
    if "isString lv" "isString volInterface"
  proof -
    from that obtain s t where "lv = VString s" "volInterface = VString t"
      by (cases lv; cases volInterface) auto
    with assms show ?thesis
      by (simp add: attachmentSpecOf_def assertString_def Let_def)
  qed
qed

text \<open>
  Claim C10. A request whose parameters contain the key \<^verbatim>\<open>lvPath\<close> makes
  \<open>CreateServiceInstance\<close> panic, whatever the other parameters, the client and the
  registry are, and the registry is left as it was. When the recognised parameters
  have the types the source asserts, the panic is the assignment to an entry of the
  nil \<^verbatim>\<open>Metadata\<close> map of the fresh \<^verbatim>\<open>new(model.VolumeSpec)\<close>; otherwise a type
  assertion panics first. \<open>Bind\<close> does the same once it has found the instance and its
  volume id: its attachment specification is a composite literal that does not set
  \<^verbatim>\<open>Metadata\<close>.
\<close>

theorem lvPath_assignment_panics:
  "(Parameters req ''lvPath'' = Some lv \<longrightarrow>
      (\<exists>p. CreateServiceInstance client instanceID req instances = (Panicked p, instances))
      \<and> (isString lv \<and> stringOrAbsent (Parameters req ''name'')
           \<and> stringOrAbsent (Parameters req ''description'') \<and> int64OrAbsent (Parameters req ''capacity'')
          \<longrightarrow> CreateServiceInstance client instanceID req instances = (Panicked NilMapAssignment, instances)))
   \<and> (BindingParameters breq ''lvPath'' = Some lv \<and> instances instanceID = Some inst
        \<and> Credential inst ''volumeId'' = Some volInterface \<longrightarrow>
      (\<exists>p. Bind client instanceID bindingID breq instances = (Panicked p, instances))
      \<and> (isString lv \<and> isString volInterface
          \<longrightarrow> Bind client instanceID bindingID breq instances = (Panicked NilMapAssignment, instances)))"
proof (intro conjI impI)
  assume a: "Parameters req ''lvPath'' = Some lv"
  from volumeSpecOf_lvPath(1) [of "Parameters req" lv, OF a] show "\<exists>p. CreateServiceInstance client instanceID req instances = (Panicked p, instances)"
    by (auto simp: CreateServiceInstance_def)
  assume "isString lv \<and> stringOrAbsent (Parameters req ''name'')
           \<and> stringOrAbsent (Parameters req ''description'') \<and> int64OrAbsent (Parameters req ''capacity'')"
  with volumeSpecOf_lvPath(2) [of "Parameters req" lv, OF a]
  show "CreateServiceInstance client instanceID req instances = (Panicked NilMapAssignment, instances)"
    by (simp add: CreateServiceInstance_def)
next
  assume b: "BindingParameters breq ''lvPath'' = Some lv \<and> instances instanceID = Some inst
        \<and> Credential inst ''volumeId'' = Some volInterface"
  then have lv: "BindingParameters breq ''lvPath'' = Some lv" by simp
  from attachmentSpecOf_lvPath(1) [of "BindingParameters breq" lv volInterface, OF lv] b
  show "\<exists>p. Bind client instanceID bindingID breq instances = (Panicked p, instances)"
    by (auto simp: Bind_def)
  assume "isString lv \<and> isString volInterface"
  with attachmentSpecOf_lvPath(2) [of "BindingParameters breq" lv volInterface, OF lv] b
  show "Bind client instanceID bindingID breq instances = (Panicked NilMapAssignment, instances)"
    by (simp add: Bind_def)
qed

theorem lvPath_assignment_panics_witness:
  "Parameters lvPathRequest ''lvPath'' = Some (VString ''/dev/vg/lv0'')
   \<and> isString (VString ''/dev/vg/lv0'' :: string val)
   \<and> stringOrAbsent (Parameters lvPathRequest ''name'')
   \<and> stringOrAbsent (Parameters lvPathRequest ''description'')
   \<and> int64OrAbsent (Parameters lvPathRequest ''capacity'')
   \<and> CreateServiceInstance demoClient ''i1'' lvPathRequest noInstances = (Panicked NilMapAssignment, noInstances)
   \<and> BindingParameters lvPathBinding ''lvPath'' = Some (VString ''/dev/vg/lv0'')
   \<and> afterCreate ''i1'' = Some demoInstance
   \<and> Credential demoInstance ''volumeId'' = Some (VString ''v-1'')
   \<and> Bind demoClient ''i1'' ''b1'' lvPathBinding afterCreate = (Panicked NilMapAssignment, afterCreate)"
proof -
  have a: "Parameters lvPathRequest ''lvPath'' = Some (VString ''/dev/vg/lv0'')"
    by (simp add: lvPathRequest_def)
  have t: "isString (VString ''/dev/vg/lv0'' :: string val) \<and> stringOrAbsent (Parameters lvPathRequest ''name'')
      \<and> stringOrAbsent (Parameters lvPathRequest ''description'') \<and> int64OrAbsent (Parameters lvPathRequest ''capacity'')"
    by (simp add: lvPathRequest_def)
  have b: "BindingParameters lvPathBinding ''lvPath'' = Some (VString ''/dev/vg/lv0'') \<and> afterCreate ''i1'' = Some demoInstance
      \<and> Credential demoInstance ''volumeId'' = Some (VString ''v-1'')"
    by (simp add: lvPathBinding_def afterCreate demoInstance_def)
  have s: "isString (VString ''/dev/vg/lv0'' :: string val) \<and> isString (VString ''v-1'' :: string val)"
    by simp
  note at_bind = lvPath_assignment_panics [where req = lvPathRequest and lv = "VString ''/dev/vg/lv0''"
      and client = demoClient and instanceID = "''i1''" and instances = afterCreate
      and breq = lvPathBinding and inst = demoInstance and volInterface = "VString ''v-1''" and bindingID = "''b1''"]
  note at_create = lvPath_assignment_panics [where req = lvPathRequest and lv = "VString ''/dev/vg/lv0''"
      and client = demoClient and instanceID = "''i1''" and instances = noInstances]
  from at_create a t have c: "CreateServiceInstance demoClient ''i1'' lvPathRequest noInstances = (Panicked NilMapAssignment, noInstances)"
    by blast
  from at_bind b s have d: "Bind demoClient ''i1'' ''b1'' lvPathBinding afterCreate = (Panicked NilMapAssignment, afterCreate)"
    by blast
  from a t b c d show ?thesis by blast
qed

end
